theory Spec2Isabelle
  imports Complex_Main "HOL-Library.Word"
begin

section \<open>JavaScript values\<close>

text \<open>
  A JavaScript string is a sequence of UTF-16 code units; \<open>slice\<close>, \<open>length\<close> and
  \<open>includes\<close> count code units. ASCII literals of the source are written \<open>lit ''...''\<close>.
\<close>

type_synonym js_string = "16 word list"

definition cu :: "char \<Rightarrow> 16 word" where
  "cu c = of_char c"

definition lit :: "string \<Rightarrow> js_string" where
  "lit s = map cu s"

text \<open>The line feed of the source's \<^verbatim>\<open>\n\<close>, the apostrophe, the bullet U+2022 and the em dash U+2014.\<close>

definition nl :: js_string where
  "nl = [0x0A]"

definition apostrophe :: js_string where
  "apostrophe = [0x27]"

definition bullet :: js_string where
  "bullet = [0x2022]"

definition em_dash :: js_string where
  "em_dash = [0x2014]"

text \<open>\<^verbatim>\<open>s.includes(t)\<close>: \<open>t\<close> occurs in \<open>s\<close> as a contiguous run of code units.\<close>

fun str_includes :: "js_string \<Rightarrow> js_string \<Rightarrow> bool" where
  "str_includes [] t = (t = [])"
| "str_includes (c # cs) t = (take (length t) (c # cs) = t \<or> str_includes cs t)"

definition startsWith :: "js_string \<Rightarrow> js_string \<Rightarrow> bool" where
  "startsWith s t = (take (length t) s = t)"

text \<open>\<^verbatim>\<open>s.slice(0, n)\<close> for a non-negative \<open>n\<close>.\<close>

definition slice0 :: "nat \<Rightarrow> js_string \<Rightarrow> js_string" where
  "slice0 n s = take n s"

text \<open>
  \<^verbatim>\<open>String.prototype.trim\<close> removes the ECMAScript white space and line terminator
  code units from both ends.
\<close>

definition is_white :: "16 word \<Rightarrow> bool" where
  "is_white c = (c \<in> set [0x09, 0x0A, 0x0B, 0x0C, 0x0D, 0x20, 0xA0, 0x1680, 0x2028, 0x2029,
                            0x202F, 0x205F, 0x3000, 0xFEFF] \<or> (0x2000 \<le> c \<and> c \<le> 0x200A))"

definition trim :: "js_string \<Rightarrow> js_string" where
  "trim s = rev (dropWhile is_white (rev (dropWhile is_white s)))"

text \<open>The decimal digits of a natural number, as \<^verbatim>\<open>${n}\<close> prints an integer.\<close>

fun decimal :: "nat \<Rightarrow> js_string" where
  "decimal n = (if n < 10 then [of_nat (48 + n)]
                else decimal (n div 10) @ [of_nat (48 + n mod 10)])"

declare decimal.simps [simp del]

text \<open>\<^verbatim>\<open>xs.join(sep)\<close> on an array of strings.\<close>

fun join :: "js_string \<Rightarrow> js_string list \<Rightarrow> js_string" where
  "join sep [] = []"
| "join sep [x] = x"
| "join sep (x # y # ys) = x @ sep @ join sep (y # ys)"

text \<open>
  The values \<^verbatim>\<open>JSON.parse\<close> can return. The program never computes with a number, it only
  passes it on, so a number is kept as the value it denotes. An object is the list of its own
  properties, each name once. \<^verbatim>\<open>undefined\<close> is \<open>None\<close> in a \<open>json option\<close>.
\<close>

datatype js_number = Finite rat | Infinity bool

datatype json =
    JNull
  | JBool bool
  | JNum js_number
  | JStr js_string
  | JArr "json list"
  | JObj "(js_string \<times> json) list"

text \<open>
  A thrown value: an \<^verbatim>\<open>Error\<close> instance with its message, or anything else. The messages
  of the engine's own \<^verbatim>\<open>TypeError\<close>s differ between engines and are a parameter.
\<close>

datatype thrown = ErrorObject js_string | OtherValue

datatype type_error = NotIterable | PropertyOfNull | NotAFunction

text \<open>
  What the runtime supplies: \<^verbatim>\<open>JSON.parse\<close> (which throws on text that is not JSON),
  the string conversion of numbers, arrays and objects inside a template literal (which can
  throw on an object), \<^verbatim>\<open>Buffer.toString("base64")\<close>, and the message of each
  \<^verbatim>\<open>TypeError\<close>.
\<close>

record platform =
  JSON_parse :: "js_string \<Rightarrow> thrown + json"
  ToString :: "json \<Rightarrow> thrown + js_string"
  base64 :: "8 word list \<Rightarrow> js_string"
  TypeError :: "type_error \<Rightarrow> js_string"

text \<open>
  \<^verbatim>\<open>v.k\<close> on a value that is not null, for the names this program reads (\<open>role\<close>,
  \<open>content\<close>, \<open>choices\<close>, \<open>message\<close>, \<open>reply\<close>): none of them is defined on the prototype
  of an array, string, number or boolean, so only an object can have it.
\<close>

fun get_prop :: "json \<Rightarrow> js_string \<Rightarrow> json option" where
  "get_prop (JObj kvs) k = map_of kvs k"
| "get_prop _ k = None"


text \<open>\<^verbatim>\<open>v?.k\<close>, \<^verbatim>\<open>v?.[0]\<close> and \<^verbatim>\<open>v ?? d\<close>.\<close>

fun opt_prop :: "json option \<Rightarrow> js_string \<Rightarrow> json option" where
  "opt_prop None k = None"
| "opt_prop (Some JNull) k = None"
| "opt_prop (Some v) k = get_prop v k"

fun opt_first :: "json option \<Rightarrow> json option" where
  "opt_first (Some (JArr xs)) = (case xs of [] \<Rightarrow> None | x # _ \<Rightarrow> Some x)"
| "opt_first (Some (JStr s)) = (case s of [] \<Rightarrow> None | c # _ \<Rightarrow> Some (JStr [c]))"
| "opt_first (Some (JObj kvs)) = map_of kvs (lit ''0'')"
| "opt_first _ = None"

fun coalesce :: "json option \<Rightarrow> json \<Rightarrow> json" where
  "coalesce None d = d"
| "coalesce (Some JNull) d = d"
| "coalesce (Some v) d = v"

text \<open>\<^verbatim>\<open>${v}\<close>: the string a template literal puts in for \<open>v\<close>.\<close>

fun template :: "platform \<Rightarrow> json option \<Rightarrow> thrown + js_string" where
  "template p None = Inr (lit ''undefined'')"
| "template p (Some JNull) = Inr (lit ''null'')"
| "template p (Some (JBool b)) = Inr (if b then lit ''true'' else lit ''false'')"
| "template p (Some (JStr s)) = Inr s"
| "template p (Some v) = ToString p v"

text \<open>
  \<^verbatim>\<open>[...v]\<close>: an array gives its elements, a string its code points (a surrogate pair is
  one element), anything else is not iterable.
\<close>

fun code_points :: "js_string \<Rightarrow> js_string list" where
  "code_points (a # b # r) =
     (if 0xD800 \<le> a \<and> a \<le> 0xDBFF \<and> 0xDC00 \<le> b \<and> b \<le> 0xDFFF
      then [a, b] # code_points r else [a] # code_points (b # r))"
| "code_points [a] = [[a]]"
| "code_points [] = []"

fun spread :: "platform \<Rightarrow> json \<Rightarrow> thrown + json list" where
  "spread p (JArr xs) = Inr xs"
| "spread p (JStr s) = Inr (map JStr (code_points s))"
| "spread p _ = Inl (ErrorObject (TypeError p NotIterable))"

section \<open>The relay endpoint (route.ts)\<close>

record AttachmentDetail =
  ad_name :: js_string
  ad_type :: js_string
  ad_bytes :: nat
  ad_preview :: js_string

text \<open>A \<^verbatim>\<open>File\<close> of the multipart body: name, media type and bytes.\<close>

record js_file =
  file_name :: js_string
  file_type :: js_string
  file_data :: "8 word list"

datatype form_entry = Text js_string | FilePart js_file

type_synonym form = "(js_string \<times> form_entry) list"

text \<open>
  The request as the handler reads it: the \<open>content-type\<close> header (absent is \<open>None\<close>) and
  what \<^verbatim>\<open>request.formData()\<close> gives, the entries in order or a thrown value when the
  body is not a multipart body.
\<close>

record request =
  content_type :: "js_string option"
  formData :: "thrown + form"

record response =
  status :: nat
  reply :: js_string

text \<open>The call to the completion service: the arguments of \<^verbatim>\<open>fetch\<close>, the body before \<^verbatim>\<open>JSON.stringify\<close>.\<close>

record upstream_message =
  um_role :: "json option"
  um_content :: "json option"

record upstream_request =
  url :: js_string
  http_method :: js_string
  headers :: "(js_string \<times> js_string) list"
  model :: js_string
  temperature :: rat
  max_tokens :: nat
  body_messages :: "upstream_message list"

text \<open>The upstream answer: \<^verbatim>\<open>response.ok\<close> and the body text, whose reading can fail.\<close>

record upstream_response =
  ok :: bool
  body :: "thrown + js_string"

text \<open>The server's surroundings: the credential variable and the network.\<close>

record env =
  OPENAI_API_KEY :: "js_string option"
  fetch :: "upstream_request \<Rightarrow> thrown + upstream_response"

definition SYSTEM_PROMPT :: js_string where
  "SYSTEM_PROMPT =
     lit ''You are Chatify, an upbeat and deeply practical AI guide. You:'' @ nl @
     lit ''- treat every question as a real-life problem to solve with empathy.'' @ nl @
     lit ''- break answers into clear, actionable steps and highlight pros/cons when useful.'' @ nl @
     lit ''- keep explanations concise but thorough, and propose creative ideas when helpful.'' @ nl @
     lit ''- reference any shared files or images to inform your answer. If details are limited, infer possibilities and state assumptions.''"

definition fallbackAssistant :: "js_string \<Rightarrow> js_string \<Rightarrow> js_string" where
  "fallbackAssistant latestUserMessage attachmentSummary =
     lit ''I couldn'' @ apostrophe @ lit ''t reach my reasoning engine just now, but here'' @ apostrophe @
     lit ''s a quick take based on what you shared:'' @ nl @ nl @ latestUserMessage @ nl @ nl @
     attachmentSummary @ nl @ nl @
     lit ''Let'' @ apostrophe @ lit ''s retry in a moment if you need a deeper dive.''"

text \<open>
  \<^verbatim>\<open>Math.max(1, Math.round(bytes / 1024))\<close>: the division by a power of two is exact and
  \<open>Math.round\<close> rounds a half up, so the result is \<open>(bytes + 512) div 1024\<close>, at least 1.
\<close>

definition kilobytes :: "nat \<Rightarrow> nat" where
  "kilobytes b = max 1 ((b + 512) div 1024)"

definition summary_line :: "AttachmentDetail \<Rightarrow> js_string" where
  "summary_line item =
     bullet @ lit '' '' @ ad_name item @ lit '' ('' @ ad_type item @ lit '', ~'' @
     decimal (kilobytes (ad_bytes item)) @ lit ''KB)'' @ ad_preview item"

definition buildAttachmentSummary :: "AttachmentDetail list \<Rightarrow> js_string" where
  "buildAttachmentSummary items =
     (if items = [] then lit ''No attachments were included.''
      else lit ''Attachments provided:'' @ nl @ join nl (map summary_line items))"

text \<open>The body of the loop over \<^verbatim>\<open>formData.values()\<close>, for an entry that is a \<open>File\<close>.\<close>

definition detail :: "platform \<Rightarrow> js_file \<Rightarrow> AttachmentDetail" where
  "detail p entry =
     (let buffer = file_data entry;
          snippet = (if startsWith (file_type entry) (lit ''image/'')
                     then nl @ lit ''   '' @ bullet @ lit '' Visual preview (base64, truncated): '' @
                          slice0 800 (base64 p buffer) @ lit ''...''
                     else [])
      in \<lparr>ad_name = file_name entry,
          ad_type = (if file_type entry = [] then lit ''application/octet-stream'' else file_type entry),
          ad_bytes = length buffer,
          ad_preview = snippet\<rparr>)"

fun collect :: "platform \<Rightarrow> form_entry list \<Rightarrow> AttachmentDetail list" where
  "collect p [] = []"
| "collect p (Text s # entries) = collect p entries"
| "collect p (FilePart f # entries) = detail p f # collect p entries"

text \<open>\<^verbatim>\<open>formData.get(name)\<close>: the first entry of that name.\<close>

definition form_get :: "form \<Rightarrow> js_string \<Rightarrow> form_entry option" where
  "form_get fd k = map_of fd k"

text \<open>
  \<^verbatim>\<open>xs.find((message) => message.role === "user")\<close>: reading \<open>role\<close> of \<open>null\<close> throws,
  before any later element is looked at.
\<close>

fun find_user :: "platform \<Rightarrow> json list \<Rightarrow> thrown + json option" where
  "find_user p [] = Inr None"
| "find_user p (JNull # ms) = Inl (ErrorObject (TypeError p PropertyOfNull))"
| "find_user p (m # ms) =
     (if get_prop m (lit ''role'') = Some (JStr (lit ''user'')) then Inr (Some m) else find_user p ms)"

text \<open>
  The callback of \<^verbatim>\<open>messages.map\<close> at lines 81 to 89, for the element at \<open>index\<close> of an
  array of \<open>n\<close> elements: the new object is given by its two properties.
\<close>

fun enrich_one :: "platform \<Rightarrow> bool \<Rightarrow> js_string \<Rightarrow> nat \<Rightarrow> nat \<Rightarrow> json \<Rightarrow> thrown + json" where
  "enrich_one p has_attachments attachmentSummary n index JNull =
     Inl (ErrorObject (TypeError p PropertyOfNull))"
| "enrich_one p has_attachments attachmentSummary n index message =
     (if get_prop message (lit ''role'') = Some (JStr (lit ''user'')) \<and> int index = int n - 1 \<and> has_attachments
      then (case template p (get_prop message (lit ''content'')) of
              Inl e \<Rightarrow> Inl e
            | Inr c \<Rightarrow> Inr (JObj [(lit ''role'', JStr (lit ''user'')),
                                  (lit ''content'', JStr (c @ nl @ nl @ attachmentSummary))]))
      else Inr message)"

fun enrich_from :: "platform \<Rightarrow> bool \<Rightarrow> js_string \<Rightarrow> nat \<Rightarrow> nat \<Rightarrow> json list \<Rightarrow> thrown + json list" where
  "enrich_from p has_attachments attachmentSummary n index [] = Inr []"
| "enrich_from p has_attachments attachmentSummary n index (m # ms) =
     (case enrich_one p has_attachments attachmentSummary n index m of
        Inl e \<Rightarrow> Inl e
      | Inr m' \<Rightarrow> (case enrich_from p has_attachments attachmentSummary n (Suc index) ms of
                    Inl e \<Rightarrow> Inl e
                  | Inr ms' \<Rightarrow> Inr (m' # ms')))"

definition enrichedMessages :: "platform \<Rightarrow> AttachmentDetail list \<Rightarrow> js_string \<Rightarrow> json list \<Rightarrow> thrown + json list" where
  "enrichedMessages p attachments attachmentSummary messages =
     enrich_from p (attachments \<noteq> []) attachmentSummary (length messages) 0 messages"

text \<open>
  The second \<open>map\<close>, at lines 103 to 106: the elements are not null here, the first \<open>map\<close>
  has read \<open>role\<close> of each.
\<close>

definition to_upstream :: "json \<Rightarrow> upstream_message" where
  "to_upstream message = \<lparr>um_role = get_prop message (lit ''role''), um_content = get_prop message (lit ''content'')\<rparr>"

definition upstream_call :: "js_string \<Rightarrow> json list \<Rightarrow> upstream_request" where
  "upstream_call apiKey enriched =
     \<lparr>url = lit ''https://api.openai.com/v1/chat/completions'',
      http_method = lit ''POST'',
      headers = [(lit ''Content-Type'', lit ''application/json''),
                 (lit ''Authorization'', lit ''Bearer '' @ apiKey)],
      model = lit ''gpt-4o-mini'',
      temperature = 6 / 10,
      max_tokens = 600,
      body_messages = \<lparr>um_role = Some (JStr (lit ''system'')), um_content = Some (JStr SYSTEM_PROMPT)\<rparr>
                      # map to_upstream enriched\<rparr>"

text \<open>
  \<^verbatim>\<open>fallbackAssistant(latestUserMessage, summary)\<close> as a response: the template inside
  converts \<open>latestUserMessage\<close>, which is typed a string and is whatever the transcript held.
\<close>

definition fallback_response :: "platform \<Rightarrow> json \<Rightarrow> js_string \<Rightarrow> thrown + response" where
  "fallback_response p latestUserMessage summary =
     (case template p (Some latestUserMessage) of
        Inl e \<Rightarrow> Inl e
      | Inr latest \<Rightarrow> Inr \<lparr>status = 200, reply = fallbackAssistant latest summary\<rparr>)"

text \<open>
  Lines 124 to 129: \<^verbatim>\<open>completion?.choices?.[0]?.message?.content?.trim() ?? fallback\<close>.
  Only a string has \<open>trim\<close>; calling it on another value that is not null throws.
\<close>

definition extract_content :: "json \<Rightarrow> json option" where
  "extract_content completion =
     opt_prop (opt_prop (opt_first (opt_prop (Some completion) (lit ''choices''))) (lit ''message'')) (lit ''content'')"

definition reply_of_completion :: "platform \<Rightarrow> json \<Rightarrow> js_string \<Rightarrow> json \<Rightarrow> thrown + response" where
  "reply_of_completion p latestUserMessage attachmentSummary completion =
     (case extract_content completion of
        None \<Rightarrow> fallback_response p latestUserMessage attachmentSummary
      | Some JNull \<Rightarrow> fallback_response p latestUserMessage attachmentSummary
      | Some (JStr c) \<Rightarrow> Inr \<lparr>status = 200, reply = trim c\<rparr>
      | Some _ \<Rightarrow> Inl (ErrorObject (TypeError p NotAFunction)))"

text \<open>Lines 111 to 129: what the handler makes of the upstream answer.\<close>

definition after_fetch :: "platform \<Rightarrow> json \<Rightarrow> js_string \<Rightarrow> upstream_response \<Rightarrow> thrown + response" where
  "after_fetch p latestUserMessage attachmentSummary resp =
     (if \<not> ok resp then
        (case body resp of
           Inl e \<Rightarrow> Inl e
         | Inr responder \<Rightarrow>
             fallback_response p latestUserMessage
               (attachmentSummary @ nl @ lit ''(Reason: '' @ slice0 200 responder @ lit '')''))
      else
        (case body resp of
           Inl e \<Rightarrow> Inl e
         | Inr text \<Rightarrow>
             (case JSON_parse p text of
                Inl e \<Rightarrow> Inl e
              | Inr completion \<Rightarrow> reply_of_completion p latestUserMessage attachmentSummary completion)))"

text \<open>
  Lines 56 to 129, after the three checks. The result is what the \<open>try\<close> block returns or
  throws, with the list of calls made to the completion service.
\<close>

definition relay :: "platform \<Rightarrow> env \<Rightarrow> json \<Rightarrow> form \<Rightarrow> (thrown + response) \<times> upstream_request list" where
  "relay p e messages fd =
     (let attachments = collect p (map snd fd) in
      case spread p messages of
        Inl err \<Rightarrow> (Inl err, [])
      | Inr elements \<Rightarrow>
          (case find_user p (rev elements) of
             Inl err \<Rightarrow> (Inl err, [])
           | Inr found \<Rightarrow>
               (let latestUserMessage = coalesce (opt_prop found (lit ''content'')) (JStr []);
                    attachmentSummary = buildAttachmentSummary attachments
                in case OPENAI_API_KEY e of
                     None \<Rightarrow> (fallback_response p latestUserMessage attachmentSummary, [])
                   | Some apiKey \<Rightarrow>
                       if apiKey = [] then (fallback_response p latestUserMessage attachmentSummary, [])
                       else
                         (case messages of
                            JArr ms \<Rightarrow>
                              (case enrichedMessages p attachments attachmentSummary ms of
                                 Inl err \<Rightarrow> (Inl err, [])
                               | Inr enriched \<Rightarrow>
                                   (let call = upstream_call apiKey enriched in
                                    case fetch e call of
                                      Inl err \<Rightarrow> (Inl err, [call])
                                    | Inr resp \<Rightarrow>
                                        (after_fetch p latestUserMessage attachmentSummary resp, [call])))
                          | _ \<Rightarrow> (Inl (ErrorObject (TypeError p NotAFunction)), [])))))"

text \<open>Lines 37 to 54 and the hand-over to the rest of the \<open>try\<close> block.\<close>

definition POST_try :: "platform \<Rightarrow> env \<Rightarrow> request \<Rightarrow> (thrown + response) \<times> upstream_request list" where
  "POST_try p e req =
     (let contentType = (case content_type req of None \<Rightarrow> [] | Some c \<Rightarrow> c) in
      if \<not> str_includes contentType (lit ''multipart/form-data'')
      then (Inr \<lparr>status = 400, reply = lit ''Invalid payload format.''\<rparr>, [])
      else
        (case formData req of
           Inl err \<Rightarrow> (Inl err, [])
         | Inr fd \<Rightarrow>
             (case form_get fd (lit ''messages'') of
                Some (Text rawMessages) \<Rightarrow>
                  (case JSON_parse p rawMessages of
                     Inl err \<Rightarrow>
                       (Inr \<lparr>status = 400, reply = lit ''The conversation payload could not be parsed.''\<rparr>, [])
                   | Inr messages \<Rightarrow> relay p e messages fd)
              | _ \<Rightarrow> (Inr \<lparr>status = 400, reply = lit ''Missing conversation context.''\<rparr>, []))))"

text \<open>The \<open>catch\<close> at lines 130 to 138.\<close>

definition catch_reply :: "thrown \<Rightarrow> response" where
  "catch_reply error =
     (let message = (case error of ErrorObject m \<Rightarrow> m | OtherValue \<Rightarrow> lit ''Unknown error'')
      in \<lparr>status = 200,
          reply = lit ''I had trouble completing that request ('' @ message @ lit ''). Let'' @
                  apostrophe @ lit ''s try again in a moment.''\<rparr>)"

definition POST :: "platform \<Rightarrow> env \<Rightarrow> request \<Rightarrow> response \<times> upstream_request list" where
  "POST p e req =
     (case POST_try p e req of
        (Inr r, calls) \<Rightarrow> (r, calls)
      | (Inl error, calls) \<Rightarrow> (catch_reply error, calls))"

section \<open>The conversation composer (page.tsx)\<close>

record AttachmentDraft =
  draft_id :: js_string
  draft_file :: js_file
  draft_preview :: js_string

record PersistedAttachment =
  pa_id :: js_string
  pa_name :: js_string
  pa_type :: js_string
  pa_url :: js_string

datatype ChatRole = User | Assistant

text \<open>
  \<open>content\<close> is typed a string; the content of an assistant message is taken unchecked from
  the response payload, so at run time it is whatever JSON value the payload held.
\<close>

record ChatMessage =
  msg_id :: js_string
  msg_role :: ChatRole
  msg_content :: json
  msg_createdAt :: nat
  msg_attachments :: "PersistedAttachment list option"

text \<open>
  The body posted to \<^verbatim>\<open>/api/chat\<close>: the value whose \<^verbatim>\<open>JSON.stringify\<close> text is the
  \<open>messages\<close> field, and the file parts with their field names, in the order appended.
\<close>

record outgoing =
  out_messages :: json
  out_files :: "(js_string \<times> js_file) list"

record chat_response =
  chat_ok :: bool
  chat_json :: "thrown + json"

text \<open>
  What the browser supplies. Identifiers, clock readings and object URLs are drawn one after
  the other; the number of the draw stands for the moment of the call, so that the file reader
  and the network may answer differently at different moments.
\<close>

record browser =
  generateId :: "nat \<Rightarrow> js_string"
  now :: "nat \<Rightarrow> nat"
  createObjectURL :: "nat \<Rightarrow> js_file \<Rightarrow> js_string"
  readAsDataURL :: "nat \<Rightarrow> js_file \<Rightarrow> js_string option"
  fetch_chat :: "nat \<Rightarrow> outgoing \<Rightarrow> thrown + chat_response"
  speechSynthesis_present :: bool
  TypeError_text :: "type_error \<Rightarrow> js_string"

text \<open>
  The state of the component that the three handlers read and write, with two logs that the
  source does not keep: the URLs given to \<^verbatim>\<open>URL.revokeObjectURL\<close> and the bodies posted.
\<close>

record composer =
  messages :: "ChatMessage list"
  input :: js_string
  pendingAttachments :: "AttachmentDraft list"
  isThinking :: bool
  autoSpeak :: bool
  speechOutput :: bool
  speakQueue :: "json option"
  revoked :: "js_string list"
  posted :: "outgoing list"
  draws :: nat

definition MAX_ATTACHMENTS :: nat where
  "MAX_ATTACHMENTS = 4"

definition greeting :: js_string where
  "greeting =
     lit ''Hi, I'' @ apostrophe @ lit ''m Chatify'' @ em_dash @
     lit ''your friendly AI co-pilot for everyday challenges. Ask me anything, speak to me, or share images and files so we can tackle it together!''"

text \<open>The initial values of the \<open>useState\<close> hooks, after the effect that detects speech output.\<close>

definition initial :: "browser \<Rightarrow> composer" where
  "initial b =
     \<lparr>messages = [\<lparr>msg_id = generateId b 0, msg_role = Assistant, msg_content = JStr greeting,
                    msg_createdAt = now b 0, msg_attachments = None\<rparr>],
      input = [],
      pendingAttachments = [],
      isThinking = False,
      autoSpeak = True,
      speechOutput = speechSynthesis_present b,
      speakQueue = None,
      revoked = [],
      posted = [],
      draws = 1\<rparr>"

definition fileToDataUrl :: "browser \<Rightarrow> nat \<Rightarrow> js_file \<Rightarrow> thrown + js_string" where
  "fileToDataUrl b t f =
     (case readAsDataURL b t f of
        Some result \<Rightarrow> Inr result
      | None \<Rightarrow> Inl (ErrorObject (lit ''Unable to read '' @ file_name f)))"

definition new_draft :: "browser \<Rightarrow> nat \<Rightarrow> js_file \<Rightarrow> AttachmentDraft" where
  "new_draft b t f = \<lparr>draft_id = generateId b t, draft_file = f, draft_preview = createObjectURL b t f\<rparr>"

definition handleFileChange :: "browser \<Rightarrow> js_file list \<Rightarrow> composer \<Rightarrow> composer" where
  "handleFileChange b files s =
     (if files = [] then s
      else
        (let prev = pendingAttachments s;
             availableSlots = int MAX_ATTACHMENTS - int (length prev)
         in if availableSlots \<le> 0 then s
            else
              (let chosen = take (nat availableSlots) files;
                   nextFiles = map (\<lambda>(i, f). new_draft b (draws s + i) f) (enumerate 0 chosen)
               in s\<lparr>pendingAttachments := prev @ nextFiles, draws := draws s + length chosen\<rparr>)))"

definition removeAttachment :: "js_string \<Rightarrow> composer \<Rightarrow> composer" where
  "removeAttachment ident s =
     (let prev = pendingAttachments s;
          next = filter (\<lambda>item. draft_id item \<noteq> ident) prev
      in case find (\<lambda>item. draft_id item = ident) prev of
           Some removed \<Rightarrow> s\<lparr>pendingAttachments := next, revoked := revoked s @ [draft_preview removed]\<rparr>
         | None \<Rightarrow> s\<lparr>pendingAttachments := next\<rparr>)"

definition role_text :: "ChatRole \<Rightarrow> js_string" where
  "role_text r = (case r of User \<Rightarrow> lit ''user'' | Assistant \<Rightarrow> lit ''assistant'')"

text \<open>
  The value \<^verbatim>\<open>JSON.stringify\<close> writes for \<open>serializeMessagesForRequest(conversation)\<close>: a
  property whose value is \<open>undefined\<close> is left out.
\<close>

definition serialize_attachment :: "PersistedAttachment \<Rightarrow> json" where
  "serialize_attachment a = JObj [(lit ''name'', JStr (pa_name a)), (lit ''type'', JStr (pa_type a))]"

definition serialize_message :: "ChatMessage \<Rightarrow> json" where
  "serialize_message m =
     JObj ([(lit ''role'', JStr (role_text (msg_role m))), (lit ''content'', msg_content m)] @
           (case msg_attachments m of
              None \<Rightarrow> []
            | Some as \<Rightarrow> [(lit ''attachments'', JArr (map serialize_attachment as))]))"

definition serializeMessagesForRequest :: "ChatMessage list \<Rightarrow> json" where
  "serializeMessagesForRequest conversation = JArr (map serialize_message conversation)"

text \<open>Lines 206 to 217: each conversion settles, and the fulfilled ones are kept in order.\<close>

definition convert :: "browser \<Rightarrow> nat \<Rightarrow> AttachmentDraft \<Rightarrow> thrown + PersistedAttachment" where
  "convert b t item =
     (case fileToDataUrl b t (draft_file item) of
        Inl e \<Rightarrow> Inl e
      | Inr u \<Rightarrow>
          Inr \<lparr>pa_id = draft_id item,
               pa_name = file_name (draft_file item),
               pa_type = (if file_type (draft_file item) = [] then lit ''application/octet-stream''
                          else file_type (draft_file item)),
               pa_url = u\<rparr>)"

fun fulfilled :: "(thrown + 'a) list \<Rightarrow> 'a list" where
  "fulfilled [] = []"
| "fulfilled (Inl e # rs) = fulfilled rs"
| "fulfilled (Inr v # rs) = v # fulfilled rs"

text \<open>Lines 241 to 254: the \<open>try\<close> block up to the content of the assistant message.\<close>

definition transport :: "browser \<Rightarrow> nat \<Rightarrow> outgoing \<Rightarrow> thrown + json" where
  "transport b t fd =
     (case fetch_chat b t fd of
        Inl e \<Rightarrow> Inl e
      | Inr response \<Rightarrow>
          if \<not> chat_ok response then Inl (ErrorObject (lit ''Failed to reach Chatify''))
          else
            (case chat_json response of
               Inl e \<Rightarrow> Inl e
             | Inr JNull \<Rightarrow> Inl (ErrorObject (TypeError_text b PropertyOfNull))
             | Inr payload \<Rightarrow>
                 Inr (coalesce (get_prop payload (lit ''reply''))
                        (JStr (lit ''I'' @ apostrophe @ lit ''m here, but I couldn'' @ apostrophe @
                               lit ''t understand the request just yet.'')))))"

text \<open>The content of the assistant message, from the \<open>try\<close> block or from the \<open>catch\<close>.\<close>

definition assistant_content :: "thrown + json \<Rightarrow> json" where
  "assistant_content outcome =
     (case outcome of
        Inr c \<Rightarrow> c
      | Inl (ErrorObject m) \<Rightarrow> JStr (lit ''I ran into an issue: '' @ m @ lit ''. Please try again.'')
      | Inl OtherValue \<Rightarrow>
          JStr (lit ''Something unexpected happened. Let'' @ apostrophe @ lit ''s try again!''))"

text \<open>
  One run of \<open>handleSend\<close> from its first line to the end of \<open>finally\<close>, with no other handler
  running in between.
\<close>

definition handleSend :: "browser \<Rightarrow> composer \<Rightarrow> composer" where
  "handleSend b s =
     (if trim (input s) = [] \<and> length (pendingAttachments s) = 0 then s
      else
        (let t = draws s;
             attachmentsSnapshot = pendingAttachments s;
             conversionResults = map (convert b t) attachmentsSnapshot;
             attachmentSnapshots = fulfilled conversionResults;
             userMessage = \<lparr>msg_id = generateId b t, msg_role = User, msg_content = JStr (trim (input s)),
                            msg_createdAt = now b t, msg_attachments = Some attachmentSnapshots\<rparr>;
             nextConversation = messages s @ [userMessage];
             fd = \<lparr>out_messages = serializeMessagesForRequest nextConversation,
                         out_files = map (\<lambda>(index, attachment).
                                            (lit ''attachment-'' @ decimal index, draft_file attachment))
                                       (enumerate 0 attachmentsSnapshot)\<rparr>;
             assistantMessage = \<lparr>msg_id = generateId b (Suc t), msg_role = Assistant,
                                 msg_content = assistant_content (transport b t fd),
                                 msg_createdAt = now b (Suc t), msg_attachments = None\<rparr>
         in s\<lparr>messages := nextConversation @ [assistantMessage],
              input := [],
              pendingAttachments := [],
              isThinking := False,
              speakQueue := (if speechOutput s \<and> autoSpeak s then Some (msg_content assistantMessage)
                             else speakQueue s),
              revoked := revoked s @ map draft_preview attachmentsSnapshot,
              posted := posted s @ [fd],
              draws := t + 2\<rparr>))"

text \<open>The form's \<open>onSubmit\<close>: a send starts only when none is running.\<close>

definition preventDefault :: "browser \<Rightarrow> composer \<Rightarrow> composer" where
  "preventDefault b s = (if \<not> isThinking s then handleSend b s else s)"

text \<open>What the user can do to the composer, and a session of such actions.\<close>

datatype action =
    ChooseFiles "js_file list"
  | ClickRemove js_string
  | TypeText js_string
  | Submit

fun perform :: "browser \<Rightarrow> composer \<Rightarrow> action \<Rightarrow> composer" where
  "perform b s (ChooseFiles files) = handleFileChange b files s"
| "perform b s (ClickRemove ident) = removeAttachment ident s"
| "perform b s (TypeText text) = s\<lparr>input := text\<rparr>"
| "perform b s Submit = preventDefault b s"

definition session :: "browser \<Rightarrow> action list \<Rightarrow> composer" where
  "session b actions = foldl (perform b) (initial b) actions"

section \<open>Notions used to state the properties\<close>

text \<open>The file parts of a multipart body, in the order they arrive.\<close>

fun file_parts :: "form_entry list \<Rightarrow> js_file list" where
  "file_parts [] = []"
| "file_parts (Text s # entries) = file_parts entries"
| "file_parts (FilePart f # entries) = f # file_parts entries"

text \<open>The type \<open>RequestMessage\<close> of lines 3 to 7, as a check on a parsed value.\<close>

fun attachment_ref :: "json \<Rightarrow> bool" where
  "attachment_ref (JObj kvs) =
     ((case map_of kvs (lit ''name'') of Some (JStr n) \<Rightarrow> True | _ \<Rightarrow> False) \<and>
      (case map_of kvs (lit ''type'') of Some (JStr t) \<Rightarrow> True | _ \<Rightarrow> False))"
| "attachment_ref _ = False"

fun RequestMessage :: "json \<Rightarrow> bool" where
  "RequestMessage (JObj kvs) =
     ((map_of kvs (lit ''role'') = Some (JStr (lit ''user'')) \<or>
       map_of kvs (lit ''role'') = Some (JStr (lit ''assistant''))) \<and>
      (case map_of kvs (lit ''content'') of Some (JStr c) \<Rightarrow> True | _ \<Rightarrow> False) \<and>
      (case map_of kvs (lit ''attachments'') of
         None \<Rightarrow> True
       | Some (JArr refs) \<Rightarrow> list_all attachment_ref refs
       | Some _ \<Rightarrow> False))"
| "RequestMessage _ = False"

text \<open>The expected structure of the \<open>messages\<close> field: an array of such records.\<close>

fun expected_structure :: "json \<Rightarrow> bool" where
  "expected_structure (JArr ms) = list_all RequestMessage ms"
| "expected_structure _ = False"

definition is_user :: "json \<Rightarrow> bool" where
  "is_user m = (get_prop m (lit ''role'') = Some (JStr (lit ''user'')))"

definition content_text :: "json \<Rightarrow> js_string" where
  "content_text m = (case get_prop m (lit ''content'') of Some (JStr c) \<Rightarrow> c | _ \<Rightarrow> [])"

text \<open>The position of the latest message of role user in a transcript, if there is one.\<close>

fun latest_user_index :: "json list \<Rightarrow> nat option" where
  "latest_user_index [] = None"
| "latest_user_index (m # ms) =
     (case latest_user_index ms of
        Some i \<Rightarrow> Some (Suc i)
      | None \<Rightarrow> if is_user m then Some 0 else None)"

text \<open>The text of the latest user message, empty when the transcript has none.\<close>

definition latest_user_text :: "json list \<Rightarrow> js_string" where
  "latest_user_text ms = (case latest_user_index ms of None \<Rightarrow> [] | Some i \<Rightarrow> content_text (ms ! i))"

text \<open>
  A request that passes the three checks of lines 37 to 54 with the body \<open>fd\<close> and whose
  \<open>messages\<close> field parses to the transcript \<open>ms\<close>, an array of \<open>RequestMessage\<close> records.
\<close>

definition accepted :: "platform \<Rightarrow> request \<Rightarrow> form \<Rightarrow> json list \<Rightarrow> bool" where
  "accepted p req fd ms =
     (str_includes (case content_type req of None \<Rightarrow> [] | Some c \<Rightarrow> c) (lit ''multipart/form-data'') \<and>
      formData req = Inr fd \<and>
      (case form_get fd (lit ''messages'') of
         Some (Text rawMessages) \<Rightarrow> JSON_parse p rawMessages = Inr (JArr ms)
       | _ \<Rightarrow> False) \<and>
      list_all RequestMessage ms)"

text \<open>The credential variable is unset or empty: \<^verbatim>\<open>!apiKey\<close> holds.\<close>

definition no_credential :: "env \<Rightarrow> bool" where
  "no_credential e = (case OPENAI_API_KEY e of None \<Rightarrow> True | Some k \<Rightarrow> k = [])"

text \<open>
  The three rejections of lines 37 to 54: the content type does not mention
  \<open>multipart/form-data\<close>; or the body is read and its \<open>messages\<close> field is missing or is a
  file; or the body is read and that field is text on which \<^verbatim>\<open>JSON.parse\<close> throws. The
  last two are about a body that \<^verbatim>\<open>request.formData()\<close> has read: when that call throws,
  no check of the \<open>messages\<close> field is reached, and \<open>unreadable_body\<close> holds instead.
\<close>

definition wrong_content_type :: "request \<Rightarrow> bool" where
  "wrong_content_type req =
     (\<not> str_includes (case content_type req of None \<Rightarrow> [] | Some c \<Rightarrow> c) (lit ''multipart/form-data''))"

definition read_messages_not_text :: "request \<Rightarrow> bool" where
  "read_messages_not_text req =
     (case formData req of
        Inl err \<Rightarrow> False
      | Inr fd \<Rightarrow> (case form_get fd (lit ''messages'') of Some (Text rawMessages) \<Rightarrow> False | _ \<Rightarrow> True))"

definition read_messages_not_json :: "platform \<Rightarrow> request \<Rightarrow> bool" where
  "read_messages_not_json p req =
     (case formData req of
        Inl err \<Rightarrow> False
      | Inr fd \<Rightarrow>
          (case form_get fd (lit ''messages'') of
             Some (Text rawMessages) \<Rightarrow> (case JSON_parse p rawMessages of Inl err \<Rightarrow> True | Inr v \<Rightarrow> False)
           | _ \<Rightarrow> False))"

definition unreadable_body :: "request \<Rightarrow> bool" where
  "unreadable_body req = (case formData req of Inl err \<Rightarrow> True | Inr fd \<Rightarrow> False)"

definition rejected :: "platform \<Rightarrow> request \<Rightarrow> bool" where
  "rejected p req =
     (wrong_content_type req \<or> (\<not> wrong_content_type req \<and> (read_messages_not_text req \<or> read_messages_not_json p req)))"

text \<open>
  The \<open>messages\<close> field is text that parses, to a value that is not an array of
  \<open>RequestMessage\<close> records.
\<close>

definition wrong_structure :: "platform \<Rightarrow> request \<Rightarrow> bool" where
  "wrong_structure p req =
     (case formData req of
        Inl err \<Rightarrow> False
      | Inr fd \<Rightarrow>
          (case form_get fd (lit ''messages'') of
             Some (Text rawMessages) \<Rightarrow>
               (case JSON_parse p rawMessages of Inl err \<Rightarrow> False | Inr v \<Rightarrow> \<not> expected_structure v)
           | _ \<Rightarrow> False))"

text \<open>The object that the enrichment puts in the place of a user message \<open>m\<close>.\<close>

definition suffixed :: "js_string \<Rightarrow> json \<Rightarrow> json" where
  "suffixed S m = JObj [(lit ''role'', JStr (lit ''user'')),
                        (lit ''content'', JStr (content_text m @ nl @ nl @ S))]"

text \<open>The cap on staged files holds in a composer state, and held for every body it posted.\<close>

definition within_cap :: "composer \<Rightarrow> bool" where
  "within_cap s =
     (length (pendingAttachments s) \<le> MAX_ATTACHMENTS \<and>
      list_all (\<lambda>out. length (out_files out) \<le> MAX_ATTACHMENTS) (posted s))"

text \<open>A staged file that the file reader can read at the moment \<open>t\<close>.\<close>

definition readable :: "browser \<Rightarrow> nat \<Rightarrow> AttachmentDraft \<Rightarrow> bool" where
  "readable b t item = (readAsDataURL b t (draft_file item) \<noteq> None)"

text \<open>
  What the browser's \<open>fetch\<close> makes of an answer of the relay: \<open>ok\<close> is a status from 200
  to 299, and the body written by \<^verbatim>\<open>NextResponse.json({ reply })\<close> parses to an object with
  that reply.
\<close>

definition relay_answer :: "response \<Rightarrow> chat_response" where
  "relay_answer r =
     \<lparr>chat_ok = (200 \<le> status r \<and> status r \<le> 299),
      chat_json = Inr (JObj [(lit ''reply'', JStr (reply r))])\<rparr>"

section \<open>A runtime and inputs for the examples\<close>

text \<open>Base64 (RFC 4648) of a list of byte values.\<close>

definition base64_digit :: "nat \<Rightarrow> 16 word" where
  "base64_digit n =
     (if n < 26 then of_nat (65 + n)
      else if n < 52 then of_nat (97 + (n - 26))
      else if n < 62 then of_nat (48 + (n - 52))
      else if n = 62 then 0x2B else 0x2F)"

fun base64_encode :: "nat list \<Rightarrow> js_string" where
  "base64_encode (a # b # c # rest) =
     [base64_digit (a div 4), base64_digit ((a mod 4) * 16 + b div 16),
      base64_digit ((b mod 16) * 4 + c div 64), base64_digit (c mod 64)] @ base64_encode rest"
| "base64_encode [a, b] =
     [base64_digit (a div 4), base64_digit ((a mod 4) * 16 + b div 16),
      base64_digit ((b mod 16) * 4), 0x3D]"
| "base64_encode [a] = [base64_digit (a div 4), base64_digit ((a mod 4) * 16), 0x3D, 0x3D]"
| "base64_encode [] = []"

definition message_value :: "string \<Rightarrow> string \<Rightarrow> json" where
  "message_value r c = JObj [(lit ''role'', JStr (lit r)), (lit ''content'', JStr (lit c))]"

definition transcript_text :: js_string where
  \<open>transcript_text =
     lit ''[{"role":"user","content":"A"},{"role":"assistant","content":"B"},{"role":"user","content":"C"}]''\<close>

definition transcript_value :: "json list" where
  "transcript_value = [message_value ''user'' ''A'', message_value ''assistant'' ''B'', message_value ''user'' ''C'']"

definition short_text :: js_string where
  \<open>short_text = lit ''[{"role":"user","content":"A"},{"role":"assistant","content":"B"}]''\<close>

definition short_value :: "json list" where
  "short_value = [message_value ''user'' ''A'', message_value ''assistant'' ''B'']"

definition hello_text :: js_string where
  \<open>hello_text = lit ''[{"role":"user","content":"Hello"}]''\<close>

definition completion_text :: js_string where
  \<open>completion_text = lit ''{"choices":[{"message":{"role":"assistant","content":" Sure thing. "}}]}''\<close>

definition completion_value :: json where
  "completion_value =
     JObj [(lit ''choices'', JArr [JObj [(lit ''message'', message_value ''assistant'' '' Sure thing. '')]])]"

definition no_choice_text :: js_string where
  \<open>no_choice_text = lit ''{"choices":[]}''\<close>

text \<open>
  The texts the examples parse, each with the value \<^verbatim>\<open>JSON.parse\<close> returns for it; on
  any other text the sample parser throws.
\<close>

definition sample_texts :: "(js_string \<times> json) list" where
  "sample_texts =
     [(transcript_text, JArr transcript_value),
      (short_text, JArr short_value),
      (hello_text, JArr [message_value ''user'' ''Hello'']),
      (lit ''{}'', JObj []),
      (completion_text, completion_value),
      (no_choice_text, JObj [(lit ''choices'', JArr [])])]"

text \<open>
  A runtime for the examples: \<open>JSON.parse\<close> on the texts above, real Base64, the text of a
  plain object for \<open>ToString\<close> (the examples convert strings only), and one engine's
  \<open>TypeError\<close> messages.
\<close>

definition sample_platform :: platform where
  "sample_platform =
     \<lparr>JSON_parse = (\<lambda>s. case map_of sample_texts s of
                           Some v \<Rightarrow> Inr v
                         | None \<Rightarrow> Inl (ErrorObject (lit ''Unexpected token''))),
      ToString = (\<lambda>v. Inr (lit ''[object Object]'')),
      base64 = (\<lambda>bytes. base64_encode (map unat bytes)),
      TypeError = (\<lambda>t. case t of
                          NotIterable \<Rightarrow> lit ''messages is not iterable''
                        | PropertyOfNull \<Rightarrow> lit ''Cannot read properties of null''
                        | NotAFunction \<Rightarrow> lit ''messages.map is not a function'')\<rparr>"

definition photo :: js_file where
  "photo = \<lparr>file_name = lit ''cat.png'', file_type = lit ''image/png'', file_data = [0x89, 0x50, 0x4E]\<rparr>"

definition memo :: js_file where
  "memo = \<lparr>file_name = lit ''notes.txt'', file_type = lit ''text/plain'', file_data = replicate 2000 0x61\<rparr>"

definition sample_form :: "js_string \<Rightarrow> js_file list \<Rightarrow> form" where
  "sample_form rawMessages files =
     (lit ''messages'', Text rawMessages) #
     map (\<lambda>(i, f). (lit ''attachment-'' @ decimal i, FilePart f)) (enumerate 0 files)"

definition sample_request :: "js_string \<Rightarrow> js_file list \<Rightarrow> request" where
  "sample_request rawMessages files =
     \<lparr>content_type = Some (lit ''multipart/form-data; boundary=x''),
      formData = Inr (sample_form rawMessages files)\<rparr>"

text \<open>A network that answers every call with the given status flag and body.\<close>

definition sample_env :: "js_string option \<Rightarrow> bool \<Rightarrow> js_string \<Rightarrow> env" where
  "sample_env key is_ok text = \<lparr>OPENAI_API_KEY = key, fetch = (\<lambda>call. Inr \<lparr>ok = is_ok, body = Inr text\<rparr>)\<rparr>"

text \<open>A browser in which the file \<open>broken.bin\<close> cannot be read and the relay answers as given.\<close>

definition sample_browser :: "chat_response \<Rightarrow> browser" where
  "sample_browser answer =
     \<lparr>generateId = (\<lambda>n. lit ''id-'' @ decimal n),
      now = (\<lambda>n. 1700000000000 + n),
      createObjectURL = (\<lambda>n f. lit ''blob:'' @ decimal n),
      readAsDataURL = (\<lambda>n f. if file_name f = lit ''broken.bin'' then None
                               else Some (lit ''data:'' @ file_type f @ lit '';base64,'' @
                                          base64_encode (map unat (file_data f)))),
      fetch_chat = (\<lambda>n out. Inr answer),
      speechSynthesis_present = True,
      TypeError_text = (\<lambda>t. lit ''Cannot read properties of null'')\<rparr>"

definition broken :: js_file where
  "broken = \<lparr>file_name = lit ''broken.bin'', file_type = [], file_data = [0x00]\<rparr>"

section \<open>String literals\<close>

lemma cu_eq_iff [simp]: "cu c = cu d \<longleftrightarrow> c = d"
proof
  assume eq: "cu c = cu d"
  have lt: "(of_char x :: nat) < 2 ^ LENGTH(16)" for x
    by (rule order_less_trans [OF nat_of_char_less_256]) simp
  have w: "cu x = word_of_nat (of_char x)" for x
    by (simp only: cu_def of_nat_of_char)
  from eq have "take_bit LENGTH(16) (of_char c :: nat) = take_bit LENGTH(16) (of_char d :: nat)"
    by (simp only: w word_of_nat_eq_iff)
  then have "(of_char c :: nat) = of_char d"
    by (simp only: take_bit_nat_eq_self [OF lt])
  then have "char_of (of_char c :: nat) = char_of (of_char d :: nat)" by (rule arg_cong)
  then show "c = d" by (simp only: char_of_char)
next
  assume "c = d"
  then show "cu c = cu d" by (rule arg_cong)
qed

lemma lit_eq_iff [simp]: "lit a = lit b \<longleftrightarrow> a = b"
  by (simp add: lit_def inj_map_eq_map inj_on_def)

lemma lit_Nil_iff [simp]: "lit a = [] \<longleftrightarrow> a = []"
  by (simp add: lit_def)

lemma length_lit [simp]: "length (lit a) = length a"
  by (simp add: lit_def)

section \<open>The attachment summary\<close>

lemma collect_file_parts: "collect p entries = map (detail p) (file_parts entries)"
  by (induction entries rule: file_parts.induct) simp_all

lemma summary_line_detail:
  "summary_line (detail p f) =
     bullet @ lit '' '' @ file_name f @ lit '' ('' @ ad_type (detail p f) @ lit '', ~'' @
     decimal (kilobytes (length (file_data f))) @ lit ''KB)'' @ ad_preview (detail p f)"
  by (simp add: summary_line_def detail_def Let_def)

text \<open>
  C6. The attachment summary is a function of the file parts of the body alone. With no file
  part it is exactly \<open>No attachments were included.\<close>; otherwise it is the heading followed by
  one bullet per file part, in arrival order, each naming the file, its type and its size in
  kilobytes. Two bodies with the same file parts in the same order get the same summary,
  whatever else they hold.
\<close>

theorem attachment_summary_lists_files_in_order:
  "buildAttachmentSummary (collect p entries) =
     (if file_parts entries = [] then lit ''No attachments were included.''
      else lit ''Attachments provided:'' @ nl @
           join nl (map (\<lambda>f. bullet @ lit '' '' @ file_name f @ lit '' ('' @ ad_type (detail p f) @
                               lit '', ~'' @ decimal (kilobytes (length (file_data f))) @ lit ''KB)'' @
                               ad_preview (detail p f))
                        (file_parts entries)))
   \<and> (file_parts entries = file_parts entries' \<longrightarrow>
        buildAttachmentSummary (collect p entries) = buildAttachmentSummary (collect p entries'))"
  by (simp add: buildAttachmentSummary_def collect_file_parts summary_line_detail o_def)

theorem attachment_summary_example:
  "file_parts [FilePart photo, Text hello_text, FilePart memo] =
     file_parts [Text hello_text, FilePart photo, FilePart memo]
   \<and> buildAttachmentSummary (collect sample_platform [FilePart photo, Text hello_text, FilePart memo]) =
     buildAttachmentSummary (collect sample_platform [Text hello_text, FilePart photo, FilePart memo])
   \<and> buildAttachmentSummary (collect sample_platform [FilePart photo, Text hello_text, FilePart memo]) =
     lit ''Attachments provided:'' @ nl @
     bullet @ lit '' cat.png (image/png, ~1KB)'' @ nl @ lit ''   '' @ bullet @
     lit '' Visual preview (base64, truncated): iVBO...'' @ nl @
     bullet @ lit '' notes.txt (text/plain, ~2KB)''
   \<and> buildAttachmentSummary (collect sample_platform [Text hello_text]) =
     lit ''No attachments were included.''"
  using attachment_summary_lists_files_in_order
          [of sample_platform "[FilePart photo, Text hello_text, FilePart memo]"
              "[Text hello_text, FilePart photo, FilePart memo]"]
        attachment_summary_lists_files_in_order [of sample_platform "[Text hello_text]" "[]"]
  by (simp add: detail_def photo_def memo_def sample_platform_def startsWith_def slice0_def
        kilobytes_def decimal.simps base64_digit_def lit_def cu_def nl_def bullet_def)

section \<open>The relay: status codes, well-formed transcripts\<close>

lemma fallback_response_status: "fallback_response p l s = Inr r \<Longrightarrow> status r = 200"
  by (auto simp: fallback_response_def split: sum.splits)

lemma reply_of_completion_status: "reply_of_completion p l s c = Inr r \<Longrightarrow> status r = 200"
  by (auto simp: reply_of_completion_def split: option.splits json.splits dest: fallback_response_status)

lemma after_fetch_status: "after_fetch p l s resp = Inr r \<Longrightarrow> status r = 200"
  by (auto simp: after_fetch_def split: if_splits sum.splits
      dest: fallback_response_status reply_of_completion_status)

lemma relay_status: "relay p e m fd = (Inr r, calls) \<Longrightarrow> status r = 200"
  by (auto simp: relay_def Let_def split: sum.splits option.splits if_splits json.splits
      dest: fallback_response_status after_fetch_status)

lemma POST_try_rejected:
  "rejected p req \<Longrightarrow>
   POST_try p e req =
     (Inr \<lparr>status = 400,
           reply = (if wrong_content_type req then lit ''Invalid payload format.''
                    else if read_messages_not_text req then lit ''Missing conversation context.''
                    else lit ''The conversation payload could not be parsed.'')\<rparr>, [])"
  by (auto simp: rejected_def wrong_content_type_def read_messages_not_text_def read_messages_not_json_def
        POST_try_def Let_def split: sum.splits option.splits form_entry.splits)

lemma POST_try_not_rejected:
  "\<not> rejected p req \<Longrightarrow> POST_try p e req = (Inr r, calls) \<Longrightarrow> status r = 200"
  by (auto simp: rejected_def wrong_content_type_def read_messages_not_text_def read_messages_not_json_def
        POST_try_def Let_def split: sum.splits option.splits form_entry.splits if_splits
        dest: relay_status)

lemma catch_reply_status: "status (catch_reply err) = 200"
  by (simp add: catch_reply_def Let_def)

lemma POST_status_400_iff: "status (fst (POST p e req)) = 400 \<longleftrightarrow> rejected p req"
proof (cases "rejected p req")
  case True
  then show ?thesis by (simp add: POST_def POST_try_rejected)
next
  case False
  obtain out calls where t: "POST_try p e req = (out, calls)" by (cases "POST_try p e req")
  show ?thesis
  proof (cases out)
    case (Inl err)
    with t False show ?thesis by (simp add: POST_def catch_reply_status)
  next
    case (Inr r)
    with t False POST_try_not_rejected [of p req e r calls] show ?thesis by (simp add: POST_def)
  qed
qed

lemma RequestMessage_obj:
  assumes "RequestMessage m"
  obtains kvs c where "m = JObj kvs" and "map_of kvs (lit ''content'') = Some (JStr c)"
    and "map_of kvs (lit ''role'') = Some (JStr (lit ''user'')) \<or>
         map_of kvs (lit ''role'') = Some (JStr (lit ''assistant''))"
  using assms by (cases m) (auto split: option.splits json.splits)

lemma RequestMessage_content:
  "RequestMessage m \<Longrightarrow> get_prop m (lit ''content'') = Some (JStr (content_text m))"
  by (erule RequestMessage_obj) (simp add: content_text_def)

lemma RequestMessage_opt_content:
  "RequestMessage m \<Longrightarrow> opt_prop (Some m) (lit ''content'') = Some (JStr (content_text m))"
  by (erule RequestMessage_obj) (simp add: content_text_def)

lemma find_user_valid:
  "list_all RequestMessage ms \<Longrightarrow> find_user p ms = Inr (find is_user ms)"
proof (induction ms)
  case Nil
  show ?case by simp
next
  case (Cons m ms)
  from Cons.prems have "RequestMessage m" by simp
  then obtain kvs where "m = JObj kvs" by (rule RequestMessage_obj)
  with Cons show ?case by (simp add: is_user_def)
qed

lemma find_snoc: "find P (xs @ [x]) = (case find P xs of None \<Rightarrow> (if P x then Some x else None) | Some y \<Rightarrow> Some y)"
  by (induction xs) auto

lemma latest_user_index_bound: "latest_user_index ms = Some i \<Longrightarrow> i < length ms"
  by (induction ms arbitrary: i) (auto split: option.splits if_splits)

lemma latest_user_index_user: "latest_user_index ms = Some i \<Longrightarrow> is_user (ms ! i)"
  by (induction ms arbitrary: i) (auto split: option.splits if_splits)

lemma latest_user_index_None:
  "latest_user_index ms = None \<Longrightarrow> k < length ms \<Longrightarrow> \<not> is_user (ms ! k)"
proof (induction ms arbitrary: k)
  case Nil
  then show ?case by simp
next
  case (Cons a as)
  then show ?case by (cases k) (auto split: option.splits if_splits)
qed

lemma latest_user_index_latest:
  "latest_user_index ms = Some i \<Longrightarrow> i < j \<Longrightarrow> j < length ms \<Longrightarrow> \<not> is_user (ms ! j)"
proof (induction ms arbitrary: i j)
  case Nil
  then show ?case by simp
next
  case (Cons m ms)
  from Cons.prems obtain j' where j: "j = Suc j'" by (cases j) auto
  show ?case
  proof (cases "latest_user_index ms")
    case None
    with Cons.prems j latest_user_index_None [of ms j'] show ?thesis by simp
  next
    case (Some i')
    with Cons.prems have i: "i = Suc i'" by simp
    with Cons.prems j Cons.IH [OF Some, of j'] show ?thesis by simp
  qed
qed

lemma find_rev_latest:
  "find is_user (rev ms) = map_option (\<lambda>i. ms ! i) (latest_user_index ms)"
  by (induction ms) (auto simp: find_snoc split: option.splits)

lemma latest_of_valid:
  assumes "list_all RequestMessage ms"
  shows "coalesce (opt_prop (find is_user (rev ms)) (lit ''content'')) (JStr []) = JStr (latest_user_text ms)"
proof (cases "latest_user_index ms")
  case None
  then show ?thesis by (simp add: find_rev_latest latest_user_text_def)
next
  case (Some i)
  then have "i < length ms" by (rule latest_user_index_bound)
  with assms have "RequestMessage (ms ! i)" by (simp add: list_all_length)
  then have "opt_prop (Some (ms ! i)) (lit ''content'') = Some (JStr (content_text (ms ! i)))"
    by (rule RequestMessage_opt_content)
  with Some show ?thesis by (simp add: find_rev_latest latest_user_text_def)
qed

lemma enrich_one_valid:
  "RequestMessage m \<Longrightarrow>
   enrich_one p h S n i m = Inr (if is_user m \<and> Suc i = n \<and> h then suffixed S m else m)"
  by (erule RequestMessage_obj) (auto simp: is_user_def suffixed_def content_text_def)

lemma enrich_from_valid:
  "list_all RequestMessage ms \<Longrightarrow>
   enrich_from p h S n i ms =
     Inr (map (\<lambda>(j, m). if is_user m \<and> Suc j = n \<and> h then suffixed S m else m) (enumerate i ms))"
  by (induction ms arbitrary: i) (simp_all add: enrich_one_valid)

lemma enrichedMessages_valid:
  "list_all RequestMessage ms \<Longrightarrow>
   enrichedMessages p atts S ms =
     Inr (map (\<lambda>(j, m). if is_user m \<and> Suc j = length ms \<and> atts \<noteq> [] then suffixed S m else m)
            (enumerate 0 ms))"
  by (simp add: enrichedMessages_def enrich_from_valid)

lemma relay_valid_no_key:
  assumes "list_all RequestMessage ms" and "no_credential e"
  shows "relay p e (JArr ms) fd =
           (Inr \<lparr>status = 200, reply = fallbackAssistant (latest_user_text ms)
                   (buildAttachmentSummary (collect p (map snd fd)))\<rparr>, [])"
  using assms latest_of_valid [OF assms(1)]
  by (auto simp: relay_def Let_def find_user_valid fallback_response_def no_credential_def
      split: option.splits)

lemma relay_valid_key:
  assumes "list_all RequestMessage ms" and "OPENAI_API_KEY e = Some k" and "k \<noteq> []"
    and "enrichedMessages p (collect p (map snd fd)) (buildAttachmentSummary (collect p (map snd fd))) ms = Inr enriched"
  shows "relay p e (JArr ms) fd =
           (case fetch e (upstream_call k enriched) of
              Inl err \<Rightarrow> (Inl err, [upstream_call k enriched])
            | Inr resp \<Rightarrow> (after_fetch p (JStr (latest_user_text ms))
                              (buildAttachmentSummary (collect p (map snd fd))) resp,
                           [upstream_call k enriched]))"
  using assms latest_of_valid [OF assms(1)]
  by (simp add: relay_def Let_def find_user_valid)

lemma POST_try_accepted:
  "accepted p req fd ms \<Longrightarrow> POST_try p e req = relay p e (JArr ms) fd"
  by (auto simp: accepted_def POST_try_def Let_def split: option.splits form_entry.splits)


lemma relay_no_credential_no_call: "no_credential e \<Longrightarrow> snd (relay p e msgs fd) = []"
  by (auto simp: relay_def Let_def no_credential_def split: sum.splits option.splits json.splits)


lemma POST_try_no_credential_no_call: "no_credential e \<Longrightarrow> snd (POST_try p e req) = []"
  by (auto simp: POST_try_def Let_def relay_no_credential_no_call
      split: sum.splits option.splits form_entry.splits)


section \<open>The relay: enrichment and the upstream call\<close>

lemma snd_POST: "snd (POST p e req) = snd (POST_try p e req)"
  by (simp add: POST_def split: prod.splits sum.splits)

lemma latest_user_index_last:
  "is_user (ms ! i) \<Longrightarrow> Suc i = length ms \<Longrightarrow> latest_user_index ms = Some i"
proof (induction ms arbitrary: i)
  case Nil then show ?case by simp
next
  case (Cons m ms)
  show ?case
  proof (cases i)
    case 0
    with Cons.prems show ?thesis by simp
  next
    case (Suc j)
    with Cons.prems Cons.IH [of j] show ?thesis by simp
  qed
qed

lemma to_upstream_suffixed:
  "to_upstream (suffixed S m) =
     \<lparr>um_role = Some (JStr (lit ''user'')), um_content = Some (JStr (content_text m @ nl @ nl @ S))\<rparr>"
  by (simp add: to_upstream_def suffixed_def)

text \<open>
  C1, amended. For a request that passes validation with a transcript of \<open>RequestMessage\<close>
  records, and a configured credential, the handler makes one upstream call: the system prompt
  followed by one message per transcript message, roles unchanged. The attachment summary is
  appended to the content of the last message of the transcript, when that message has role
  user (it is then the latest user message) and the body has a file part: the new content is
  the old one, an empty line and the summary. Every message that is not the last one passes
  with its content unchanged, also the latest user message when an assistant message follows
  it; every message that is not the latest user message passes unchanged; and every message
  passes unchanged when the body has no file part.
\<close>

theorem enrichment_of_last_user_message:
  assumes "accepted p req fd ms" and "OPENAI_API_KEY e = Some k" and "k \<noteq> []"
  shows "\<exists>call. snd (POST p e req) = [call] \<and>
           length (body_messages call) = Suc (length ms) \<and>
           body_messages call ! 0 =
             \<lparr>um_role = Some (JStr (lit ''system'')), um_content = Some (JStr SYSTEM_PROMPT)\<rparr> \<and>
           (\<forall>i<length ms.
              um_role (body_messages call ! Suc i) = get_prop (ms ! i) (lit ''role'') \<and>
              (latest_user_index ms \<noteq> Some i \<or> file_parts (map snd fd) = [] \<longrightarrow>
                 um_content (body_messages call ! Suc i) = get_prop (ms ! i) (lit ''content'')) \<and>
              (um_content (body_messages call ! Suc i) \<noteq> get_prop (ms ! i) (lit ''content'') \<longrightarrow>
                 um_content (body_messages call ! Suc i) =
                   Some (JStr (content_text (ms ! i) @ nl @ nl @
                               buildAttachmentSummary (collect p (map snd fd))))) \<and>
              (latest_user_index ms = Some i \<and> Suc i = length ms \<and> file_parts (map snd fd) \<noteq> [] \<longrightarrow>
                 um_content (body_messages call ! Suc i) =
                   Some (JStr (content_text (ms ! i) @ nl @ nl @
                               buildAttachmentSummary (collect p (map snd fd))))) \<and>
              (Suc i \<noteq> length ms \<longrightarrow>
                 um_content (body_messages call ! Suc i) = get_prop (ms ! i) (lit ''content'')) \<and>
              (Suc i = length ms \<and> is_user (ms ! i) \<and> file_parts (map snd fd) \<noteq> [] \<longrightarrow>
                 latest_user_index ms = Some i \<and>
                 um_content (body_messages call ! Suc i) =
                   Some (JStr (content_text (ms ! i) @ nl @ nl @
                               buildAttachmentSummary (collect p (map snd fd))))))"
proof -
  let ?atts = "collect p (map snd fd)"
  let ?S = "buildAttachmentSummary ?atts"
  let ?f = "\<lambda>(j, m). if is_user m \<and> Suc j = length ms \<and> ?atts \<noteq> [] then suffixed ?S m else m"
  let ?enriched = "map ?f (enumerate 0 ms)"
  let ?call = "upstream_call k ?enriched"
  from assms(1) have valid: "list_all RequestMessage ms" by (simp add: accepted_def)
  have en: "enrichedMessages p ?atts ?S ms = Inr ?enriched"
    using valid by (rule enrichedMessages_valid)
  have "snd (relay p e (JArr ms) fd) = [?call]"
    by (simp add: relay_valid_key [OF valid assms(2) assms(3) en] split: sum.splits)
  with assms(1) have calls: "snd (POST p e req) = [?call]"
    by (simp add: snd_POST POST_try_accepted)
  have len: "length (body_messages ?call) = Suc (length ms)"
    by (simp add: upstream_call_def)
  have atts: "?atts \<noteq> [] \<longleftrightarrow> file_parts (map snd fd) \<noteq> []"
    by (simp add: collect_file_parts)
  have each: "um_role (body_messages ?call ! Suc i) = get_prop (ms ! i) (lit ''role'') \<and>
      (latest_user_index ms \<noteq> Some i \<or> file_parts (map snd fd) = [] \<longrightarrow>
         um_content (body_messages ?call ! Suc i) = get_prop (ms ! i) (lit ''content'')) \<and>
      (um_content (body_messages ?call ! Suc i) \<noteq> get_prop (ms ! i) (lit ''content'') \<longrightarrow>
         um_content (body_messages ?call ! Suc i) = Some (JStr (content_text (ms ! i) @ nl @ nl @ ?S))) \<and>
      (latest_user_index ms = Some i \<and> Suc i = length ms \<and> file_parts (map snd fd) \<noteq> [] \<longrightarrow>
         um_content (body_messages ?call ! Suc i) = Some (JStr (content_text (ms ! i) @ nl @ nl @ ?S))) \<and>
      (Suc i \<noteq> length ms \<longrightarrow>
         um_content (body_messages ?call ! Suc i) = get_prop (ms ! i) (lit ''content'')) \<and>
      (Suc i = length ms \<and> is_user (ms ! i) \<and> file_parts (map snd fd) \<noteq> [] \<longrightarrow>
         latest_user_index ms = Some i \<and>
         um_content (body_messages ?call ! Suc i) = Some (JStr (content_text (ms ! i) @ nl @ nl @ ?S)))"
    if i: "i < length ms" for i
  proof -
    have nth: "body_messages ?call ! Suc i = to_upstream (?f (i, ms ! i))"
      using i by (simp add: upstream_call_def nth_enumerate_eq)
    show ?thesis
    proof (cases "is_user (ms ! i) \<and> Suc i = length ms \<and> ?atts \<noteq> []")
      case True
      then have "latest_user_index ms = Some i" by (simp add: latest_user_index_last)
      moreover from True have "get_prop (ms ! i) (lit ''role'') = Some (JStr (lit ''user''))"
        by (simp add: is_user_def)
      ultimately show ?thesis using True nth atts by (simp add: to_upstream_suffixed)
    next
      case False
      then have same: "body_messages ?call ! Suc i = to_upstream (ms ! i)"
        using nth by auto
      have "\<not> (latest_user_index ms = Some i \<and> Suc i = length ms \<and> file_parts (map snd fd) \<noteq> [])"
        using False atts latest_user_index_user [of ms i] by auto
      moreover have "\<not> (Suc i = length ms \<and> is_user (ms ! i) \<and> file_parts (map snd fd) \<noteq> [])"
        using False atts by auto
      ultimately show ?thesis using same by (auto simp: to_upstream_def)
    qed
  qed
  have sys: "body_messages ?call ! 0 =
      \<lparr>um_role = Some (JStr (lit ''system'')), um_content = Some (JStr SYSTEM_PROMPT)\<rparr>"
    by (simp add: upstream_call_def)
  from calls len sys each show ?thesis by blast
qed

lemmas sample_defs =
  sample_request_def sample_form_def sample_env_def sample_platform_def sample_texts_def
  transcript_text_def transcript_value_def short_text_def short_value_def hello_text_def
  completion_text_def completion_value_def
  no_choice_text_def message_value_def photo_def memo_def

lemmas relay_defs =
  POST_def POST_try_def relay_def form_get_def Let_def catch_reply_def fallback_response_def
  after_fetch_def reply_of_completion_def extract_content_def enrichedMessages_def upstream_call_def
  to_upstream_def buildAttachmentSummary_def summary_line_def detail_def startsWith_def slice0_def
  kilobytes_def decimal.simps

lemma accepted_sample_transcript:
  "accepted sample_platform (sample_request transcript_text [memo]) (sample_form transcript_text [memo]) transcript_value"
  by (simp add: accepted_def sample_defs form_get_def) (simp add: lit_def)

lemma accepted_sample_short:
  "accepted sample_platform (sample_request short_text [memo]) (sample_form short_text [memo]) short_value"
  by (simp add: accepted_def sample_defs form_get_def) (simp add: lit_def)

theorem enrichment_example:
  "accepted sample_platform (sample_request transcript_text [memo]) (sample_form transcript_text [memo])
     transcript_value \<and>
   map um_content (body_messages (hd (snd (POST sample_platform
                                             (sample_env (Some (lit ''sk-test'')) True completion_text)
                                             (sample_request transcript_text [memo]))))) =
     [Some (JStr SYSTEM_PROMPT), Some (JStr (lit ''A'')), Some (JStr (lit ''B'')),
      Some (JStr (lit ''C'' @ nl @ nl @ lit ''Attachments provided:'' @ nl @ bullet @
                  lit '' notes.txt (text/plain, ~2KB)''))] \<and>
   accepted sample_platform (sample_request short_text [memo]) (sample_form short_text [memo]) short_value \<and>
   um_content (body_messages (hd (snd (POST sample_platform
                                         (sample_env (Some (lit ''sk-test'')) True completion_text)
                                         (sample_request short_text [memo]))))
               ! 1) = Some (JStr (lit ''A''))"
proof -
  let ?e = "sample_env (Some (lit ''sk-test'')) True completion_text"
  let ?req = "sample_request transcript_text [memo]"
  let ?fd = "sample_form transcript_text [memo]"
  let ?S = "buildAttachmentSummary (collect sample_platform (map snd ?fd))"
  have a: "accepted sample_platform ?req ?fd transcript_value"
    by (rule accepted_sample_transcript)
  have k: "OPENAI_API_KEY ?e = Some (lit ''sk-test'')" "lit ''sk-test'' \<noteq> []"
    by (simp_all add: sample_env_def)
  from enrichment_of_last_user_message [OF a k]
  obtain call where c: "snd (POST sample_platform ?e ?req) = [call]"
    and len: "length (body_messages call) = Suc (length transcript_value)"
    and c0: "body_messages call ! 0 =
       \<lparr>um_role = Some (JStr (lit ''system'')), um_content = Some (JStr SYSTEM_PROMPT)\<rparr>"
    and each: "\<And>i. i < length transcript_value \<Longrightarrow>
       (latest_user_index transcript_value \<noteq> Some i \<or> file_parts (map snd ?fd) = [] \<longrightarrow>
        um_content (body_messages call ! Suc i) = get_prop (transcript_value ! i) (lit ''content'')) \<and>
       (latest_user_index transcript_value = Some i \<and> Suc i = length transcript_value \<and>
          file_parts (map snd ?fd) \<noteq> [] \<longrightarrow>
        um_content (body_messages call ! Suc i) =
          Some (JStr (content_text (transcript_value ! i) @ nl @ nl @ ?S)))"
    by blast
  have latest: "latest_user_index transcript_value = Some 2"
    by (simp add: transcript_value_def message_value_def is_user_def)
  have files: "file_parts (map snd ?fd) = [memo]"
    by (simp add: sample_form_def)
  have S: "?S = lit ''Attachments provided:'' @ nl @ bullet @ lit '' notes.txt (text/plain, ~2KB)''"
    by (simp add: sample_form_def relay_defs memo_def) (simp add: lit_def cu_def)
  have len3: "length transcript_value = 3"
    by (simp add: transcript_value_def)
  have n0: "get_prop (transcript_value ! 0) (lit ''content'') = Some (JStr (lit ''A''))"
    and n1: "get_prop (transcript_value ! 1) (lit ''content'') = Some (JStr (lit ''B''))"
    and n2: "content_text (transcript_value ! 2) = lit ''C''"
    by (simp_all add: transcript_value_def message_value_def content_text_def)
  have c1: "um_content (body_messages call ! 1) = Some (JStr (lit ''A''))"
    using each [of 0] latest len3 n0 by simp
  have c2: "um_content (body_messages call ! 2) = Some (JStr (lit ''B''))"
    using each [of 1] latest len3 n1 by (simp add: numeral_2_eq_2)
  have c3: "um_content (body_messages call ! 3) = Some (JStr (lit ''C'' @ nl @ nl @ ?S))"
    using each [of 2] latest len3 n2 files by (simp add: numeral_3_eq_3)
  from len have "length (body_messages call) = 4" by (simp add: len3)
  then obtain m0 m1 m2 m3 where ms: "body_messages call = [m0, m1, m2, m3]"
    by (auto simp: length_Suc_conv numeral_eq_Suc)
  from c have "hd (snd (POST sample_platform ?e ?req)) = call" by simp
  with ms c0 c1 c2 c3 S have long:
    "map um_content (body_messages (hd (snd (POST sample_platform ?e ?req)))) =
     [Some (JStr SYSTEM_PROMPT), Some (JStr (lit ''A'')), Some (JStr (lit ''B'')),
      Some (JStr (lit ''C'' @ nl @ nl @ lit ''Attachments provided:'' @ nl @ bullet @
                  lit '' notes.txt (text/plain, ~2KB)''))]"
    by simp
  let ?req' = "sample_request short_text [memo]"
  let ?fd' = "sample_form short_text [memo]"
  have a': "accepted sample_platform ?req' ?fd' short_value"
    by (rule accepted_sample_short)
  from enrichment_of_last_user_message [OF a' k]
  obtain call' where c': "snd (POST sample_platform ?e ?req') = [call']"
    and each': "\<And>i. i < length short_value \<Longrightarrow>
       (Suc i \<noteq> length short_value \<longrightarrow>
        um_content (body_messages call' ! Suc i) = get_prop (short_value ! i) (lit ''content''))"
    by blast
  have "um_content (body_messages call' ! 1) = Some (JStr (lit ''A''))"
    using each' [of 0] by (simp add: short_value_def message_value_def)
  moreover from c' have "hd (snd (POST sample_platform ?e ?req')) = call'" by simp
  ultimately have short:
    "um_content (body_messages (hd (snd (POST sample_platform ?e ?req'))) ! 1) = Some (JStr (lit ''A''))"
    by simp
  from a long a' short show ?thesis by simp
qed

text \<open>
  C1 as first stated fails where it says that the summary is appended to the latest user
  message: in the transcript of a user message \<open>A\<close> followed by an assistant message \<open>B\<close>,
  sent with one file and a configured credential, the latest user message is \<open>A\<close>, and
  the upstream call carries \<open>A\<close> and \<open>B\<close> as they are: the summary is appended nowhere.
\<close>

theorem latest_user_message_not_last_unsuffixed:
  "accepted sample_platform (sample_request short_text [memo]) (sample_form short_text [memo]) short_value \<and>
   latest_user_index short_value = Some 0 \<and>
   file_parts (map snd (sample_form short_text [memo])) = [memo] \<and>
   map um_content (body_messages (hd (snd (POST sample_platform
                                             (sample_env (Some (lit ''sk-test'')) True completion_text)
                                             (sample_request short_text [memo]))))) =
     [Some (JStr SYSTEM_PROMPT), Some (JStr (lit ''A'')), Some (JStr (lit ''B''))]"
proof -
  let ?e = "sample_env (Some (lit ''sk-test'')) True completion_text"
  let ?req = "sample_request short_text [memo]"
  let ?fd = "sample_form short_text [memo]"
  have a: "accepted sample_platform ?req ?fd short_value"
    by (rule accepted_sample_short)
  then have v: "list_all RequestMessage short_value" by (simp add: accepted_def)
  have k: "OPENAI_API_KEY ?e = Some (lit ''sk-test'')" "lit ''sk-test'' \<noteq> []"
    by (simp_all add: sample_env_def)
  have latest: "latest_user_index short_value = Some 0"
    by (simp add: short_value_def message_value_def is_user_def)
  have files: "file_parts (map snd ?fd) = [memo]"
    by (simp add: sample_form_def)
  have en: "enrichedMessages sample_platform (collect sample_platform (map snd ?fd))
              (buildAttachmentSummary (collect sample_platform (map snd ?fd))) short_value =
            Inr short_value"
    by (simp add: enrichedMessages_valid [OF v])
       (simp add: short_value_def message_value_def is_user_def)
  have "snd (POST sample_platform ?e ?req) = [upstream_call (lit ''sk-test'') short_value]"
    by (simp add: snd_POST POST_try_accepted [OF a] relay_valid_key [OF v k en] split: sum.splits)
  then have "map um_content (body_messages (hd (snd (POST sample_platform ?e ?req)))) =
     [Some (JStr SYSTEM_PROMPT), Some (JStr (lit ''A'')), Some (JStr (lit ''B''))]"
    by (simp add: upstream_call_def to_upstream_def short_value_def message_value_def)
  with a latest files show ?thesis by simp
qed



lemma no_credential_answer:
  assumes "no_credential e"
  shows "snd (POST p e req) = [] \<and>
         (accepted p req fd ms \<longrightarrow>
            fst (POST p e req) =
              \<lparr>status = 200,
               reply = fallbackAssistant (latest_user_text ms)
                         (buildAttachmentSummary (map (detail p) (file_parts (map snd fd))))\<rparr> \<and>
            (\<forall>e' req' fd' ms'.
               accepted p req' fd' ms' \<and> no_credential e' \<and>
               latest_user_text ms' = latest_user_text ms \<and>
               file_parts (map snd fd') = file_parts (map snd fd) \<longrightarrow>
               POST p e' req' = POST p e req))"
proof -
  have one: "POST p e' req' =
      (\<lparr>status = 200,
        reply = fallbackAssistant (latest_user_text ms')
                  (buildAttachmentSummary (map (detail p) (file_parts (map snd fd'))))\<rparr>, [])"
    if "accepted p req' fd' ms'" and "no_credential e'" for e' req' fd' ms'
  proof -
    from that(1) have "list_all RequestMessage ms'" by (simp add: accepted_def)
    then show ?thesis
      using that by (simp add: POST_def POST_try_accepted relay_valid_no_key collect_file_parts)
  qed
  have none: "snd (POST p e req) = []"
    using assms by (simp add: snd_POST POST_try_no_credential_no_call)
  have rest: "fst (POST p e req) =
              \<lparr>status = 200,
               reply = fallbackAssistant (latest_user_text ms)
                         (buildAttachmentSummary (map (detail p) (file_parts (map snd fd))))\<rparr> \<and>
            (\<forall>e' req' fd' ms'.
               accepted p req' fd' ms' \<and> no_credential e' \<and>
               latest_user_text ms' = latest_user_text ms \<and>
               file_parts (map snd fd') = file_parts (map snd fd) \<longrightarrow>
               POST p e' req' = POST p e req)"
    if a: "accepted p req fd ms"
  proof (intro conjI allI impI)
    show "fst (POST p e req) =
              \<lparr>status = 200,
               reply = fallbackAssistant (latest_user_text ms)
                         (buildAttachmentSummary (map (detail p) (file_parts (map snd fd))))\<rparr>"
      by (simp add: one [OF a assms])
  next
    fix e' req' fd' ms'
    assume h: "accepted p req' fd' ms' \<and> no_credential e' \<and>
               latest_user_text ms' = latest_user_text ms \<and>
               file_parts (map snd fd') = file_parts (map snd fd)"
    then have "POST p e' req' =
      (\<lparr>status = 200,
        reply = fallbackAssistant (latest_user_text ms')
                  (buildAttachmentSummary (map (detail p) (file_parts (map snd fd'))))\<rparr>, [])"
      by (intro one) simp_all
    with h one [OF a assms] show "POST p e' req' = POST p e req" by simp
  qed
  from none rest show ?thesis by blast
qed

text \<open>
  C2, amended. When the credential variable is unset or empty the handler makes no upstream
  call, for any request. For a request that passes the three checks and whose \<open>messages\<close>
  field parses to an array of \<open>RequestMessage\<close> records, it answers 200 with the fallback
  text: the fixed opening, an empty line, the content of the latest user message (empty when
  there is none), an empty line, the attachment summary, an empty line and the fixed closing.
  Two such requests with the same latest user text and the same file parts get the same
  answer, whatever the network or the rest of the transcript.
\<close>

theorem no_credential_fallback:
  assumes "no_credential e"
  shows "snd (POST p e req) = [] \<and>
         (accepted p req fd ms \<longrightarrow>
            fst (POST p e req) =
              \<lparr>status = 200,
               reply = lit ''I couldn'' @ apostrophe @ lit ''t reach my reasoning engine just now, but here'' @
                       apostrophe @ lit ''s a quick take based on what you shared:'' @ nl @ nl @
                       latest_user_text ms @ nl @ nl @
                       buildAttachmentSummary (map (detail p) (file_parts (map snd fd))) @ nl @ nl @
                       lit ''Let'' @ apostrophe @ lit ''s retry in a moment if you need a deeper dive.''\<rparr> \<and>
            (\<forall>e' req' fd' ms'.
               accepted p req' fd' ms' \<and> no_credential e' \<and>
               latest_user_text ms' = latest_user_text ms \<and>
               file_parts (map snd fd') = file_parts (map snd fd) \<longrightarrow>
               POST p e' req' = POST p e req))"
  using no_credential_answer [OF assms, of p req fd ms]
  by (simp add: fallbackAssistant_def)

theorem no_credential_example:
  "accepted sample_platform (sample_request hello_text []) (sample_form hello_text []) [message_value ''user'' ''Hello'']
   \<and> no_credential (sample_env None True [])
   \<and> POST sample_platform (sample_env None True []) (sample_request hello_text []) =
       (\<lparr>status = 200,
         reply = lit ''I couldn'' @ apostrophe @ lit ''t reach my reasoning engine just now, but here'' @
                 apostrophe @ lit ''s a quick take based on what you shared:'' @ nl @ nl @
                 lit ''Hello'' @ nl @ nl @
                 lit ''No attachments were included.'' @ nl @ nl @
                 lit ''Let'' @ apostrophe @ lit ''s retry in a moment if you need a deeper dive.''\<rparr>, [])
   \<and> POST sample_platform (sample_env (Some []) False (lit ''down'')) (sample_request hello_text []) =
     POST sample_platform (sample_env None True []) (sample_request hello_text [])"
proof -
  let ?req = "sample_request hello_text []"
  let ?fd = "sample_form hello_text []"
  let ?ms = "[message_value ''user'' ''Hello'']"
  let ?e = "sample_env None True []"
  have a: "accepted sample_platform ?req ?fd ?ms"
    by (simp add: accepted_def sample_defs form_get_def) (simp add: lit_def)
  have n: "no_credential ?e" "no_credential (sample_env (Some []) False (lit ''down''))"
    by (simp_all add: no_credential_def sample_env_def)
  have l: "latest_user_text ?ms = lit ''Hello''"
    by (simp add: latest_user_text_def message_value_def is_user_def content_text_def)
  have f: "file_parts (map snd ?fd) = []"
    by (simp add: sample_form_def)
  note fb = no_credential_fallback [OF n(1), of sample_platform ?req ?fd ?ms]
  from fb a have calls: "snd (POST sample_platform ?e ?req) = []"
    and r: "fst (POST sample_platform ?e ?req) =
              \<lparr>status = 200,
               reply = lit ''I couldn'' @ apostrophe @ lit ''t reach my reasoning engine just now, but here'' @
                       apostrophe @ lit ''s a quick take based on what you shared:'' @ nl @ nl @
                       latest_user_text ?ms @ nl @ nl @
                       buildAttachmentSummary (map (detail sample_platform) (file_parts (map snd ?fd))) @ nl @ nl @
                       lit ''Let'' @ apostrophe @ lit ''s retry in a moment if you need a deeper dive.''\<rparr>"
    and same: "\<And>e' req' fd' ms'.
               accepted sample_platform req' fd' ms' \<and> no_credential e' \<and>
               latest_user_text ms' = latest_user_text ?ms \<and>
               file_parts (map snd fd') = file_parts (map snd ?fd) \<Longrightarrow>
               POST sample_platform e' req' = POST sample_platform ?e ?req"
    by blast+
  from calls r have "POST sample_platform ?e ?req =
       (\<lparr>status = 200,
         reply = lit ''I couldn'' @ apostrophe @ lit ''t reach my reasoning engine just now, but here'' @
                 apostrophe @ lit ''s a quick take based on what you shared:'' @ nl @ nl @
                 lit ''Hello'' @ nl @ nl @
                 lit ''No attachments were included.'' @ nl @ nl @
                 lit ''Let'' @ apostrophe @ lit ''s retry in a moment if you need a deeper dive.''\<rparr>, [])"
    by (simp add: l f buildAttachmentSummary_def prod_eq_iff)
  moreover from same [of ?req ?fd ?ms "sample_env (Some []) False (lit ''down'')"] a n(2)
  have "POST sample_platform (sample_env (Some []) False (lit ''down'')) ?req = POST sample_platform ?e ?req"
    by blast
  ultimately show ?thesis using a n by simp
qed

text \<open>
  C2 as first stated fails for a body that parses to something else than an array of records:
  the text \<open>{}\<close> is read and parsed, no credential is set, and the reply is the text of the
  \<open>catch\<close>, not the fallback text.
\<close>

theorem object_transcript_gets_catch_reply:
  "no_credential (sample_env None True [])
   \<and> formData (sample_request (lit ''{}'') []) = Inr (sample_form (lit ''{}'') [])
   \<and> form_get (sample_form (lit ''{}'') []) (lit ''messages'') = Some (Text (lit ''{}''))
   \<and> JSON_parse sample_platform (lit ''{}'') = Inr (JObj [])
   \<and> POST sample_platform (sample_env None True []) (sample_request (lit ''{}'') []) =
       (\<lparr>status = 200,
         reply = lit ''I had trouble completing that request (messages is not iterable). Let'' @
                 apostrophe @ lit ''s try again in a moment.''\<rparr>, [])
   \<and> reply (fst (POST sample_platform (sample_env None True []) (sample_request (lit ''{}'') []))) \<noteq>
       fallbackAssistant [] (lit ''No attachments were included.'')"
proof -
  let ?e = "sample_env None True []"
  let ?req = "sample_request (lit ''{}'') []"
  have n: "no_credential ?e"
    by (simp add: no_credential_def sample_env_def)
  have f: "formData ?req = Inr (sample_form (lit ''{}'') [])"
    by (simp add: sample_request_def)
  have g: "form_get (sample_form (lit ''{}'') []) (lit ''messages'') = Some (Text (lit ''{}''))"
    by (simp add: form_get_def sample_form_def)
  have j: "JSON_parse sample_platform (lit ''{}'') = Inr (JObj [])"
    by (simp add: sample_platform_def sample_texts_def transcript_text_def short_text_def hello_text_def)
  have c: "str_includes (lit ''multipart/form-data; boundary=x'') (lit ''multipart/form-data'')"
    by (simp add: lit_def)
  have r: "POST sample_platform ?e ?req =
       (\<lparr>status = 200,
         reply = lit ''I had trouble completing that request ('' @ lit ''messages is not iterable'' @
                 lit ''). Let'' @ apostrophe @ lit ''s try again in a moment.''\<rparr>, [])"
    using c by (simp add: POST_def POST_try_def sample_request_def g j relay_def Let_def catch_reply_def)
               (simp add: sample_platform_def)
  then have r': "POST sample_platform ?e ?req =
       (\<lparr>status = 200,
         reply = lit ''I had trouble completing that request (messages is not iterable). Let'' @
                 apostrophe @ lit ''s try again in a moment.''\<rparr>, [])"
    by (simp add: lit_def)
  have "reply (fst (POST sample_platform ?e ?req)) \<noteq>
          fallbackAssistant [] (lit ''No attachments were included.'')"
    by (simp add: r' fallbackAssistant_def) (simp add: lit_def cu_def apostrophe_def)
  with n f g j r' show ?thesis by simp
qed







section \<open>The relay: rejections and thrown values\<close>

text \<open>
  C4, amended. The handler answers 400 exactly when the request is rejected by one of its three
  checks: the content type does not mention \<open>multipart/form-data\<close>; or the body is read and
  the \<open>messages\<close> field is missing or not text; or the body is read and that text is not
  JSON. Then the reply is the non-empty explanation of that check and no upstream call is made.
  Two kinds of request are not rejected and are answered with status 200: one whose content
  type mentions \<open>multipart/form-data\<close> and whose body cannot be read (it has no \<open>messages\<close>
  field at all; the answer is the reply of the \<open>catch\<close>, with no upstream call), and one
  whose \<open>messages\<close> field is JSON of another shape than an array of records.
\<close>

theorem structural_rejection_exactly:
  "(status (fst (POST p e req)) = 400 \<longleftrightarrow> rejected p req) \<and>
   (rejected p req \<longrightarrow>
      POST p e req =
        (\<lparr>status = 400,
          reply = (if wrong_content_type req then lit ''Invalid payload format.''
                   else if read_messages_not_text req then lit ''Missing conversation context.''
                   else lit ''The conversation payload could not be parsed.'')\<rparr>, []) \<and>
      reply (fst (POST p e req)) \<noteq> []) \<and>
   (\<not> wrong_content_type req \<and> wrong_structure p req \<longrightarrow> status (fst (POST p e req)) = 200) \<and>
   (\<not> wrong_content_type req \<and> unreadable_body req \<longrightarrow>
      \<not> rejected p req \<and> status (fst (POST p e req)) = 200 \<and> snd (POST p e req) = []) \<and>
   (\<not> wrong_content_type req \<and> formData req = Inl err \<longrightarrow>
      POST p e req =
        (\<lparr>status = 200,
          reply = lit ''I had trouble completing that request ('' @
                  (case err of ErrorObject m \<Rightarrow> m | OtherValue \<Rightarrow> lit ''Unknown error'') @
                  lit ''). Let'' @ apostrophe @ lit ''s try again in a moment.''\<rparr>, []))"
proof (intro conjI impI)
  show "status (fst (POST p e req)) = 400 \<longleftrightarrow> rejected p req"
    by (rule POST_status_400_iff)
next
  assume r: "rejected p req"
  then show "POST p e req =
        (\<lparr>status = 400,
          reply = (if wrong_content_type req then lit ''Invalid payload format.''
                   else if read_messages_not_text req then lit ''Missing conversation context.''
                   else lit ''The conversation payload could not be parsed.'')\<rparr>, [])"
    by (simp add: POST_def POST_try_rejected)
  then show "reply (fst (POST p e req)) \<noteq> []" by simp
next
  assume h: "\<not> wrong_content_type req \<and> wrong_structure p req"
  then have nr: "\<not> rejected p req"
    by (auto simp: rejected_def wrong_structure_def read_messages_not_text_def read_messages_not_json_def
        split: sum.splits option.splits form_entry.splits)
       (metis obj_sumE)
  obtain out calls where t: "POST_try p e req = (out, calls)" by (cases "POST_try p e req")
  show "status (fst (POST p e req)) = 200"
  proof (cases out)
    case (Inl err)
    with t show ?thesis by (simp add: POST_def catch_reply_status)
  next
    case (Inr r)
    with t nr POST_try_not_rejected [of p req e r calls] show ?thesis by (simp add: POST_def)
  qed
next
  assume h: "\<not> wrong_content_type req \<and> unreadable_body req"
  then obtain err' where f: "formData req = Inl err'"
    by (cases "formData req") (simp_all add: unreadable_body_def)
  with h have t: "POST_try p e req = (Inl err', [])"
    by (simp add: POST_try_def wrong_content_type_def)
  from h f show "\<not> rejected p req"
    by (simp add: rejected_def read_messages_not_text_def read_messages_not_json_def)
  from t show "status (fst (POST p e req)) = 200"
    by (simp add: POST_def catch_reply_status)
  from t show "snd (POST p e req) = []"
    by (simp add: POST_def)
next
  assume h: "\<not> wrong_content_type req \<and> formData req = Inl err"
  then have "POST_try p e req = (Inl err, [])"
    by (simp add: POST_try_def wrong_content_type_def)
  then show "POST p e req =
        (\<lparr>status = 200,
          reply = lit ''I had trouble completing that request ('' @
                  (case err of ErrorObject m \<Rightarrow> m | OtherValue \<Rightarrow> lit ''Unknown error'') @
                  lit ''). Let'' @ apostrophe @ lit ''s try again in a moment.''\<rparr>, [])"
    by (simp add: POST_def catch_reply_def Let_def)
qed

theorem structural_rejection_examples:
  "rejected sample_platform \<lparr>content_type = Some (lit ''application/json''), formData = Inr []\<rparr>
   \<and> POST sample_platform (sample_env None True []) \<lparr>content_type = Some (lit ''application/json''), formData = Inr []\<rparr> =
       (\<lparr>status = 400, reply = lit ''Invalid payload format.''\<rparr>, [])
   \<and> rejected sample_platform \<lparr>content_type = Some (lit ''multipart/form-data''), formData = Inr [(lit ''messages'', FilePart memo)]\<rparr>
   \<and> POST sample_platform (sample_env None True [])
        \<lparr>content_type = Some (lit ''multipart/form-data''), formData = Inr [(lit ''messages'', FilePart memo)]\<rparr> =
       (\<lparr>status = 400, reply = lit ''Missing conversation context.''\<rparr>, [])
   \<and> rejected sample_platform (sample_request (lit ''[{'') [])
   \<and> POST sample_platform (sample_env None True []) (sample_request (lit ''[{'') []) =
       (\<lparr>status = 400, reply = lit ''The conversation payload could not be parsed.''\<rparr>, [])
   \<and> unreadable_body \<lparr>content_type = Some (lit ''multipart/form-data''),
                        formData = Inl (ErrorObject (lit ''Failed to parse body as FormData.''))\<rparr>
   \<and> POST sample_platform (sample_env None True [])
        \<lparr>content_type = Some (lit ''multipart/form-data''),
         formData = Inl (ErrorObject (lit ''Failed to parse body as FormData.''))\<rparr> =
       (\<lparr>status = 200,
         reply = lit ''I had trouble completing that request (Failed to parse body as FormData.). Let'' @
                 apostrophe @ lit ''s try again in a moment.''\<rparr>, [])"
proof -
  let ?r4 = "\<lparr>content_type = Some (lit ''multipart/form-data''),
              formData = Inl (ErrorObject (lit ''Failed to parse body as FormData.''))\<rparr>"
  have w4: "\<not> wrong_content_type ?r4" "unreadable_body ?r4"
           "formData ?r4 = Inl (ErrorObject (lit ''Failed to parse body as FormData.''))"
    by (simp_all add: wrong_content_type_def unreadable_body_def) (simp add: lit_def)
  from structural_rejection_exactly
         [of sample_platform "sample_env None True []" ?r4 "ErrorObject (lit ''Failed to parse body as FormData.'')"]
       w4
  have "POST sample_platform (sample_env None True []) ?r4 =
       (\<lparr>status = 200,
         reply = lit ''I had trouble completing that request ('' @ lit ''Failed to parse body as FormData.'' @
                 lit ''). Let'' @ apostrophe @ lit ''s try again in a moment.''\<rparr>, [])"
    by simp
  then have u: "POST sample_platform (sample_env None True []) ?r4 =
       (\<lparr>status = 200,
         reply = lit ''I had trouble completing that request (Failed to parse body as FormData.). Let'' @
                 apostrophe @ lit ''s try again in a moment.''\<rparr>, [])"
    by (simp add: lit_def)
  let ?e = "sample_env None True []"
  let ?r1 = "\<lparr>content_type = Some (lit ''application/json''), formData = Inr []\<rparr>"
  let ?r2 = "\<lparr>content_type = Some (lit ''multipart/form-data''), formData = Inr [(lit ''messages'', FilePart memo)]\<rparr>"
  let ?r3 = "sample_request (lit ''[{'') []"
  have w1: "wrong_content_type ?r1"
    by (simp add: wrong_content_type_def) (simp add: lit_def)
  have w2: "\<not> wrong_content_type ?r2" "read_messages_not_text ?r2"
    by (simp_all add: wrong_content_type_def read_messages_not_text_def form_get_def) (simp add: lit_def)
  have w3: "\<not> wrong_content_type ?r3" "\<not> read_messages_not_text ?r3" "read_messages_not_json sample_platform ?r3"
    by (simp_all add: wrong_content_type_def read_messages_not_text_def read_messages_not_json_def form_get_def
          sample_defs) (simp add: lit_def)
  have r: "rejected sample_platform ?r1" "rejected sample_platform ?r2" "rejected sample_platform ?r3"
    using w1 w2 w3 by (simp_all add: rejected_def)
  from structural_rejection_exactly [of sample_platform ?e ?r1] r(1) w1
  have "POST sample_platform ?e ?r1 = (\<lparr>status = 400, reply = lit ''Invalid payload format.''\<rparr>, [])"
    by simp
  moreover from structural_rejection_exactly [of sample_platform ?e ?r2] r(2) w2
  have "POST sample_platform ?e ?r2 = (\<lparr>status = 400, reply = lit ''Missing conversation context.''\<rparr>, [])"
    by simp
  moreover from structural_rejection_exactly [of sample_platform ?e ?r3] r(3) w3
  have "POST sample_platform ?e ?r3 = (\<lparr>status = 400, reply = lit ''The conversation payload could not be parsed.''\<rparr>, [])"
    by simp
  ultimately show ?thesis using r w4(2) u by simp
qed

text \<open>
  C4 as first stated fails twice. The text \<open>{}\<close> is JSON and is not an array of records, and
  the request that carries it is answered with status 200. A request whose content type
  mentions \<open>multipart/form-data\<close> and whose body cannot be read has no \<open>messages\<close> field, and
  is answered with status 200 as well.
\<close>

theorem wrong_structure_gets_200:
  "\<not> wrong_content_type (sample_request (lit ''{}'') [])
   \<and> \<not> read_messages_not_text (sample_request (lit ''{}'') [])
   \<and> JSON_parse sample_platform (lit ''{}'') = Inr (JObj [])
   \<and> \<not> expected_structure (JObj [])
   \<and> status (fst (POST sample_platform (sample_env None True []) (sample_request (lit ''{}'') []))) = 200
   \<and> \<not> wrong_content_type \<lparr>content_type = Some (lit ''multipart/form-data''),
                              formData = Inl (ErrorObject (lit ''Failed to parse body as FormData.''))\<rparr>
   \<and> formData \<lparr>content_type = Some (lit ''multipart/form-data''),
                 formData = Inl (ErrorObject (lit ''Failed to parse body as FormData.''))\<rparr> =
       Inl (ErrorObject (lit ''Failed to parse body as FormData.''))
   \<and> status (fst (POST sample_platform (sample_env None True [])
                    \<lparr>content_type = Some (lit ''multipart/form-data''),
                     formData = Inl (ErrorObject (lit ''Failed to parse body as FormData.''))\<rparr>)) = 200"
  by (simp add: wrong_content_type_def read_messages_not_text_def relay_defs sample_defs) (simp add: lit_def)

text \<open>
  C9. The handler answers every request with a reply string and status 200 or 400; the status
  is 200 for every request that is not rejected by the three checks. Whatever is thrown inside
  the \<open>try\<close> block is turned into a 200 answer whose reply quotes the message of the error,
  or \<open>Unknown error\<close> for a thrown value that is not an \<open>Error\<close>.
\<close>

theorem relay_always_replies:
  "(status (fst (POST p e req)) = 200 \<or> status (fst (POST p e req)) = 400) \<and>
   (\<not> rejected p req \<longrightarrow> status (fst (POST p e req)) = 200) \<and>
   (\<forall>err calls. POST_try p e req = (Inl err, calls) \<longrightarrow>
      POST p e req =
        (\<lparr>status = 200,
          reply = lit ''I had trouble completing that request ('' @
                  (case err of ErrorObject m \<Rightarrow> m | OtherValue \<Rightarrow> lit ''Unknown error'') @
                  lit ''). Let'' @ apostrophe @ lit ''s try again in a moment.''\<rparr>, calls))"
proof -
  have caught: "POST p e req = (catch_reply err, calls)" if "POST_try p e req = (Inl err, calls)" for err calls
    using that by (simp add: POST_def)
  have ok: "status (fst (POST p e req)) = 200" if nr: "\<not> rejected p req"
  proof -
    obtain out calls where t: "POST_try p e req = (out, calls)" by (cases "POST_try p e req")
    show ?thesis
    proof (cases out)
      case (Inl err)
      with t show ?thesis by (simp add: POST_def catch_reply_status)
    next
      case (Inr r)
      with t nr POST_try_not_rejected [of p req e r calls] show ?thesis by (simp add: POST_def)
    qed
  qed
  have "status (fst (POST p e req)) = 200 \<or> status (fst (POST p e req)) = 400"
    using ok POST_status_400_iff [of p e req] by blast
  with ok caught show ?thesis by (simp add: catch_reply_def Let_def)
qed

theorem relay_exception_examples:
  "\<not> rejected sample_platform
       \<lparr>content_type = Some (lit ''multipart/form-data''),
        formData = Inl (ErrorObject (lit ''Failed to parse body as FormData.''))\<rparr>
   \<and> POST sample_platform (sample_env None True [])
       \<lparr>content_type = Some (lit ''multipart/form-data''),
        formData = Inl (ErrorObject (lit ''Failed to parse body as FormData.''))\<rparr> =
     (\<lparr>status = 200,
       reply = lit ''I had trouble completing that request (Failed to parse body as FormData.). Let'' @
               apostrophe @ lit ''s try again in a moment.''\<rparr>, [])
   \<and> fst (POST sample_platform
            \<lparr>OPENAI_API_KEY = Some (lit ''sk-test''), fetch = (\<lambda>call. Inl (ErrorObject (lit ''fetch failed'')))\<rparr>
            (sample_request hello_text [])) =
     \<lparr>status = 200,
      reply = lit ''I had trouble completing that request (fetch failed). Let'' @
              apostrophe @ lit ''s try again in a moment.''\<rparr>
   \<and> length (snd (POST sample_platform
            \<lparr>OPENAI_API_KEY = Some (lit ''sk-test''), fetch = (\<lambda>call. Inl (ErrorObject (lit ''fetch failed'')))\<rparr>
            (sample_request hello_text []))) = 1"
proof -
  let ?req = "\<lparr>content_type = Some (lit ''multipart/form-data''),
        formData = Inl (ErrorObject (lit ''Failed to parse body as FormData.''))\<rparr>"
  let ?e = "sample_env None True []"
  have nr: "\<not> rejected sample_platform ?req"
    by (simp add: rejected_def wrong_content_type_def read_messages_not_text_def read_messages_not_json_def)
       (simp add: lit_def)
  have t: "POST_try sample_platform ?e ?req = (Inl (ErrorObject (lit ''Failed to parse body as FormData.'')), [])"
    by (simp add: POST_try_def) (simp add: lit_def)
  from relay_always_replies [of sample_platform ?e ?req] t
  have "POST sample_platform ?e ?req =
     (\<lparr>status = 200,
       reply = lit ''I had trouble completing that request ('' @ lit ''Failed to parse body as FormData.'' @
               lit ''). Let'' @ apostrophe @ lit ''s try again in a moment.''\<rparr>, [])"
    by simp
  then have first: "POST sample_platform ?e ?req =
     (\<lparr>status = 200,
       reply = lit ''I had trouble completing that request (Failed to parse body as FormData.). Let'' @
               apostrophe @ lit ''s try again in a moment.''\<rparr>, [])"
    by (simp add: lit_def)
  let ?e2 = "\<lparr>OPENAI_API_KEY = Some (lit ''sk-test''), fetch = (\<lambda>call. Inl (ErrorObject (lit ''fetch failed'')))\<rparr>"
  let ?req2 = "sample_request hello_text []"
  let ?fd2 = "sample_form hello_text []"
  let ?ms2 = "[message_value ''user'' ''Hello'']"
  have a: "accepted sample_platform ?req2 ?fd2 ?ms2"
    by (simp add: accepted_def sample_defs form_get_def) (simp add: lit_def)
  then have v: "list_all RequestMessage ?ms2" by (simp add: accepted_def)
  have k: "OPENAI_API_KEY ?e2 = Some (lit ''sk-test'')" "lit ''sk-test'' \<noteq> []"
    by simp_all
  have en: "enrichedMessages sample_platform (collect sample_platform (map snd ?fd2))
              (buildAttachmentSummary (collect sample_platform (map snd ?fd2))) ?ms2 = Inr ?ms2"
    by (simp add: enrichedMessages_valid [OF v]) (simp add: sample_form_def)
  have t2: "POST_try sample_platform ?e2 ?req2 =
              (Inl (ErrorObject (lit ''fetch failed'')), [upstream_call (lit ''sk-test'') ?ms2])"
    by (simp add: POST_try_accepted [OF a] relay_valid_key [OF v k en])
  from relay_always_replies [of sample_platform ?e2 ?req2] t2
  have "POST sample_platform ?e2 ?req2 =
     (\<lparr>status = 200,
       reply = lit ''I had trouble completing that request ('' @ lit ''fetch failed'' @
               lit ''). Let'' @ apostrophe @ lit ''s try again in a moment.''\<rparr>,
      [upstream_call (lit ''sk-test'') ?ms2])"
    by simp
  then have second: "POST sample_platform ?e2 ?req2 =
     (\<lparr>status = 200,
       reply = lit ''I had trouble completing that request (fetch failed). Let'' @
               apostrophe @ lit ''s try again in a moment.''\<rparr>,
      [upstream_call (lit ''sk-test'') ?ms2])"
    by (simp add: lit_def)
  from nr first second show ?thesis by simp
qed

section \<open>The composer: staging\<close>

lemma nat_four_minus: "nat (4 - int n) = 4 - n"
  by arith

lemma handleFileChange_files:
  "map draft_file (pendingAttachments (handleFileChange b files s)) =
     map draft_file (pendingAttachments s) @ take (4 - length (pendingAttachments s)) files"
  by (auto simp: handleFileChange_def Let_def MAX_ATTACHMENTS_def new_draft_def
        o_def split_def nat_four_minus)

lemma handleFileChange_full:
  "4 \<le> length (pendingAttachments s) \<Longrightarrow> handleFileChange b files s = s"
  by (simp add: handleFileChange_def Let_def MAX_ATTACHMENTS_def)

lemma handleFileChange_posted: "posted (handleFileChange b files s) = posted s"
  by (simp add: handleFileChange_def Let_def)

lemma handleFileChange_cap: "within_cap s \<Longrightarrow> within_cap (handleFileChange b files s)"
proof -
  assume w: "within_cap s"
  have "length (pendingAttachments (handleFileChange b files s)) =
        length (map draft_file (pendingAttachments (handleFileChange b files s)))" by simp
  also have "\<dots> = length (pendingAttachments s) + min (length files) (4 - length (pendingAttachments s))"
    by (simp only: handleFileChange_files) simp
  also have "\<dots> \<le> 4" using w by (auto simp: within_cap_def MAX_ATTACHMENTS_def min_def)
  finally show ?thesis using w by (simp add: within_cap_def MAX_ATTACHMENTS_def handleFileChange_posted)
qed

lemma removeAttachment_cap: "within_cap s \<Longrightarrow> within_cap (removeAttachment ident s)"
proof -
  assume w: "within_cap s"
  have a: "length (filter (\<lambda>item. draft_id item \<noteq> ident) (pendingAttachments s)) \<le> length (pendingAttachments s)"
    by (rule length_filter_le)
  from w have b: "length (pendingAttachments s) \<le> MAX_ATTACHMENTS"
    by (simp add: within_cap_def)
  from a b have "length (filter (\<lambda>item. draft_id item \<noteq> ident) (pendingAttachments s)) \<le> MAX_ATTACHMENTS"
    by (rule le_trans)
  with w show ?thesis
    by (auto simp: within_cap_def removeAttachment_def Let_def split: option.splits)
qed

lemma map_snd_enumerate_fun: "map (\<lambda>x. f (snd x)) (enumerate n xs) = map f xs"
  by (induction xs arbitrary: n) simp_all

lemma handleSend_posted:
  "\<not> (trim (input s) = [] \<and> pendingAttachments s = []) \<Longrightarrow>
   \<exists>out. posted (handleSend b s) = posted s @ [out] \<and>
         map snd (out_files out) = map draft_file (pendingAttachments s)"
  by (auto simp: handleSend_def Let_def o_def split_def map_snd_enumerate_fun)

lemma handleSend_cap: "within_cap s \<Longrightarrow> within_cap (handleSend b s)"
  by (auto simp: within_cap_def handleSend_def Let_def)

lemma within_cap_input: "within_cap (s\<lparr>input := t\<rparr>) = within_cap s"
  by (simp add: within_cap_def)

lemma perform_cap: "within_cap s \<Longrightarrow> within_cap (perform b s a)"
  by (cases a) (simp_all add: handleFileChange_cap removeAttachment_cap handleSend_cap preventDefault_def
      within_cap_input)

lemma foldl_cap: "within_cap s \<Longrightarrow> within_cap (foldl (perform b) s actions)"
  by (induction actions arbitrary: s) (simp_all add: perform_cap)

lemma session_cap: "within_cap (session b actions)"
  unfolding session_def by (rule foldl_cap) (simp add: within_cap_def initial_def)

text \<open>
  C7. After any sequence of actions from the initial state, at most 4 files are staged, and
  every body that was posted carries at most 4 file parts. Choosing files when 4 are staged
  changes nothing; otherwise the chosen files are staged in order up to the free slots, so
  that of 5 files chosen on an empty composer the first 4 are staged and the fifth is ignored.
  The send itself does not check the cap.
\<close>

theorem staging_cap:
  "length (pendingAttachments (session b actions)) \<le> 4 \<and>
   (\<forall>out \<in> set (posted (session b actions)). length (out_files out) \<le> 4) \<and>
   (4 \<le> length (pendingAttachments s) \<longrightarrow> handleFileChange b files s = s) \<and>
   map draft_file (pendingAttachments (handleFileChange b files s)) =
     map draft_file (pendingAttachments s) @ take (4 - length (pendingAttachments s)) files"
  using session_cap [of b actions]
  by (simp add: within_cap_def MAX_ATTACHMENTS_def list_all_iff handleFileChange_full handleFileChange_files)


lemmas composer_defs =
  session_def initial_def handleFileChange_def removeAttachment_def handleSend_def preventDefault_def
  MAX_ATTACHMENTS_def new_draft_def Let_def convert_def fileToDataUrl_def

theorem staging_cap_example:
  "map draft_file (pendingAttachments
      (handleFileChange (sample_browser (relay_answer \<lparr>status = 200, reply = lit ''Hi''\<rparr>))
         [photo, memo, broken, photo, memo]
         (initial (sample_browser (relay_answer \<lparr>status = 200, reply = lit ''Hi''\<rparr>))))) =
     [photo, memo, broken, photo]
   \<and> 4 \<le> length (pendingAttachments
        (session (sample_browser (relay_answer \<lparr>status = 200, reply = lit ''Hi''\<rparr>))
           [ChooseFiles [photo, memo, broken, photo, memo]]))
   \<and> session (sample_browser (relay_answer \<lparr>status = 200, reply = lit ''Hi''\<rparr>))
        [ChooseFiles [photo, memo, broken, photo, memo], ChooseFiles [memo]] =
     session (sample_browser (relay_answer \<lparr>status = 200, reply = lit ''Hi''\<rparr>))
        [ChooseFiles [photo, memo, broken, photo, memo]]
   \<and> map (\<lambda>out. map snd (out_files out))
         (posted (session (sample_browser (relay_answer \<lparr>status = 200, reply = lit ''Hi''\<rparr>))
                    [ChooseFiles [photo, memo, broken, photo, memo], Submit])) =
     [[photo, memo, broken, photo]]
   \<and> length (out_files (hd (posted (session (sample_browser (relay_answer \<lparr>status = 200, reply = lit ''Hi''\<rparr>))
                                         [ChooseFiles [photo, memo, broken, photo, memo], Submit])))) \<le> 4"
proof -
  let ?b = "sample_browser (relay_answer \<lparr>status = 200, reply = lit ''Hi''\<rparr>)"
  let ?five = "[photo, memo, broken, photo, memo]"
  let ?s = "session ?b [ChooseFiles ?five]"
  have s: "?s = handleFileChange ?b ?five (initial ?b)"
    by (simp add: session_def)
  have first: "map draft_file (pendingAttachments (handleFileChange ?b ?five (initial ?b))) = [photo, memo, broken, photo]"
    using staging_cap [of ?b "[]" "initial ?b" ?five] by (simp add: initial_def)
  then have "length (map draft_file (pendingAttachments ?s)) = 4"
    by (simp only: s) simp
  then have full: "4 \<le> length (pendingAttachments ?s)" by simp
  with staging_cap [of ?b "[]" ?s "[memo]"] have "handleFileChange ?b [memo] ?s = ?s" by blast
  then have noop: "session ?b [ChooseFiles ?five, ChooseFiles [memo]] = ?s"
    by (simp add: session_def)
  have sent: "map (\<lambda>out. map snd (out_files out)) (posted (session ?b [ChooseFiles ?five, Submit])) =
                [[photo, memo, broken, photo]]"
    by (simp add: composer_defs)
  from sent obtain out where out: "posted (session ?b [ChooseFiles ?five, Submit]) = [out]"
    by auto
  from staging_cap [of ?b "[ChooseFiles ?five, Submit]" "initial ?b" "[]"]
  have "\<forall>out \<in> set (posted (session ?b [ChooseFiles ?five, Submit])). length (out_files out) \<le> 4"
    by blast
  with out have "length (out_files (hd (posted (session ?b [ChooseFiles ?five, Submit])))) \<le> 4"
    by simp
  with first full noop sent show ?thesis by blast
qed

section \<open>The composer: sending\<close>

lemma fulfilled_convert_ids:
  "map pa_id (fulfilled (map (convert b t) items)) = map draft_id (filter (readable b t) items)"
  by (induction items) (auto simp: convert_def fileToDataUrl_def readable_def split: option.splits)

lemma fulfilled_convert_names:
  "map pa_name (fulfilled (map (convert b t) items)) =
     map (\<lambda>item. file_name (draft_file item)) (filter (readable b t) items)"
  by (induction items) (auto simp: convert_def fileToDataUrl_def readable_def split: option.splits)

text \<open>
  C8. A send with something to send always runs to its end, whatever the file reader does:
  the user message is appended to the transcript with the trimmed input and with the
  attachments whose files could be read, in staging order, an unreadable file being left out
  of that list without a word; one body is posted (it carries every staged file, readable or
  not); an assistant message follows and the staging area is empty.
\<close>

lemma fulfilled_convert_urls:
  "map (\<lambda>a. Some (pa_url a)) (fulfilled (map (convert b t) items)) =
     map (\<lambda>item. readAsDataURL b t (draft_file item)) (filter (readable b t) items)"
  by (induction items) (auto simp: convert_def fileToDataUrl_def readable_def split: option.splits)

theorem unreadable_attachments_dropped:
  assumes "\<not> (trim (input s) = [] \<and> pendingAttachments s = [])"
  shows "\<exists>userMessage assistantMessage kept out.
           messages (handleSend b s) = messages s @ [userMessage, assistantMessage] \<and>
           msg_role userMessage = User \<and>
           msg_content userMessage = JStr (trim (input s)) \<and>
           msg_attachments userMessage = Some kept \<and>
           map pa_id kept = map draft_id (filter (readable b (draws s)) (pendingAttachments s)) \<and>
           map pa_name kept =
             map (\<lambda>item. file_name (draft_file item)) (filter (readable b (draws s)) (pendingAttachments s)) \<and>
           map (\<lambda>a. Some (pa_url a)) kept =
             map (\<lambda>item. readAsDataURL b (draws s) (draft_file item))
               (filter (readable b (draws s)) (pendingAttachments s)) \<and>
           msg_role assistantMessage = Assistant \<and>
           msg_attachments assistantMessage = None \<and>
           msg_content assistantMessage = assistant_content (transport b (draws s) out) \<and>
           posted (handleSend b s) = posted s @ [out] \<and>
           out_messages out = serializeMessagesForRequest (messages s @ [userMessage]) \<and>
           map snd (out_files out) = map draft_file (pendingAttachments s) \<and>
           pendingAttachments (handleSend b s) = [] \<and>
           \<not> isThinking (handleSend b s)"
  using assms
  by (auto simp: handleSend_def Let_def fulfilled_convert_ids fulfilled_convert_names
        fulfilled_convert_urls o_def split_def map_snd_enumerate_fun)


theorem unreadable_attachments_example:
  "\<not> (trim (input (session (sample_browser (relay_answer \<lparr>status = 200, reply = lit ''Hi''\<rparr>))
                        [ChooseFiles [photo, broken, memo], TypeText (lit '' hi '')])) = [] \<and>
        pendingAttachments (session (sample_browser (relay_answer \<lparr>status = 200, reply = lit ''Hi''\<rparr>))
                        [ChooseFiles [photo, broken, memo], TypeText (lit '' hi '')]) = [])
   \<and> map (\<lambda>m. (msg_role m, msg_content m, map_option (map pa_name) (msg_attachments m)))
         (tl (messages (handleSend (sample_browser (relay_answer \<lparr>status = 200, reply = lit ''Hi''\<rparr>))
               (session (sample_browser (relay_answer \<lparr>status = 200, reply = lit ''Hi''\<rparr>))
                        [ChooseFiles [photo, broken, memo], TypeText (lit '' hi '')])))) =
     [(User, JStr (lit ''hi''), Some [lit ''cat.png'', lit ''notes.txt'']),
      (Assistant, JStr (lit ''Hi''), None)]"
proof -
  let ?b = "sample_browser (relay_answer \<lparr>status = 200, reply = lit ''Hi''\<rparr>)"
  let ?s = "session ?b [ChooseFiles [photo, broken, memo], TypeText (lit '' hi '')]"
  have p: "map draft_file (pendingAttachments ?s) = [photo, broken, memo]"
    by (simp add: composer_defs)
  have i: "input ?s = lit '' hi ''" "length (messages ?s) = 1"
    by (simp_all add: composer_defs)
  have t: "trim (lit '' hi '') = lit ''hi''"
    by (simp add: trim_def lit_def cu_def is_white_def)
  have g: "\<not> (trim (input ?s) = [] \<and> pendingAttachments ?s = [])"
    using p by auto
  have r: "map (\<lambda>item. file_name (draft_file item)) (filter (readable ?b (draws ?s)) (pendingAttachments ?s)) =
             [lit ''cat.png'', lit ''notes.txt'']"
    by (simp add: composer_defs readable_def sample_browser_def photo_def broken_def memo_def)
  have tr: "transport ?b k out = Inr (JStr (lit ''Hi''))" for k out
    by (simp add: transport_def sample_browser_def relay_answer_def)
  from unreadable_attachments_dropped [OF g, of ?b]
  obtain userMessage assistantMessage kept out
    where m: "messages (handleSend ?b ?s) = messages ?s @ [userMessage, assistantMessage]"
      and u: "msg_role userMessage = User" "msg_content userMessage = JStr (trim (input ?s))"
             "msg_attachments userMessage = Some kept"
      and n: "map pa_name kept =
               map (\<lambda>item. file_name (draft_file item)) (filter (readable ?b (draws ?s)) (pendingAttachments ?s))"
      and as: "msg_role assistantMessage = Assistant" "msg_attachments assistantMessage = None"
              "msg_content assistantMessage = assistant_content (transport ?b (draws ?s) out)"
    by blast
  from i(2) obtain m0 where m0: "messages ?s = [m0]"
    by (cases "messages ?s") auto
  from as(3) have "msg_content assistantMessage = JStr (lit ''Hi'')"
    by (simp add: tr assistant_content_def)
  with m m0 u n as r i(1) t g show ?thesis by simp
qed


lemma lit_append: "lit a @ lit b = lit (a @ b)"
  by (simp add: lit_def)

text \<open>
  C10. When the answer to the posted body has a status that is not ok, the send appends the
  assistant message \<open>I ran into an issue: Failed to reach Chatify. Please try again.\<close>,
  whatever the body of the answer holds: the body is never read. This includes the relay's own
  400 answers, whose reply text is therefore not shown.
\<close>

theorem non_ok_answer_shows_generic_error:
  assumes "\<not> (trim (input s) = [] \<and> pendingAttachments s = [])"
    and "fetch_chat b (draws s) (last (posted (handleSend b s))) = Inr answer"
    and "\<not> chat_ok answer"
  shows "length (messages (handleSend b s)) = length (messages s) + 2 \<and>
         msg_role (last (messages (handleSend b s))) = Assistant \<and>
         msg_content (last (messages (handleSend b s))) =
           JStr (lit ''I ran into an issue: Failed to reach Chatify. Please try again.'')"
  using assms
  by (auto simp: handleSend_def Let_def transport_def assistant_content_def lit_append)

theorem rejected_request_shows_generic_error:
  "\<not> chat_ok (relay_answer (fst (POST sample_platform (sample_env None True [])
                                   \<lparr>content_type = Some (lit ''application/json''), formData = Inr []\<rparr>)))
   \<and> chat_json (relay_answer (fst (POST sample_platform (sample_env None True [])
                                   \<lparr>content_type = Some (lit ''application/json''), formData = Inr []\<rparr>))) =
       Inr (JObj [(lit ''reply'', JStr (lit ''Invalid payload format.''))])
   \<and> msg_content (last (messages (handleSend
        (sample_browser (relay_answer (fst (POST sample_platform (sample_env None True [])
                                   \<lparr>content_type = Some (lit ''application/json''), formData = Inr []\<rparr>))))
        ((initial (sample_browser (relay_answer (fst (POST sample_platform (sample_env None True [])
                                   \<lparr>content_type = Some (lit ''application/json''), formData = Inr []\<rparr>)))))
           \<lparr>input := lit ''Hello''\<rparr>)))) =
       JStr (lit ''I ran into an issue: Failed to reach Chatify. Please try again.'')"
proof -
  let ?r = "fst (POST sample_platform (sample_env None True [])
                  \<lparr>content_type = Some (lit ''application/json''), formData = Inr []\<rparr>)"
  let ?b = "sample_browser (relay_answer ?r)"
  let ?s = "(initial ?b)\<lparr>input := lit ''Hello''\<rparr>"
  have r: "?r = \<lparr>status = 400, reply = lit ''Invalid payload format.''\<rparr>"
    by (simp add: POST_def POST_try_def) (simp add: lit_def)
  have nok: "\<not> chat_ok (relay_answer ?r)"
    by (simp add: r relay_answer_def)
  have js: "chat_json (relay_answer ?r) = Inr (JObj [(lit ''reply'', JStr (lit ''Invalid payload format.''))])"
    by (simp add: r relay_answer_def)
  have t: "trim (lit ''Hello'') = lit ''Hello''"
    by (simp add: trim_def lit_def cu_def is_white_def)
  have g: "\<not> (trim (input ?s) = [] \<and> pendingAttachments ?s = [])"
    by (simp add: t)
  have f: "fetch_chat ?b (draws ?s) (last (posted (handleSend ?b ?s))) = Inr (relay_answer ?r)"
    by (simp add: sample_browser_def)
  from non_ok_answer_shows_generic_error [OF g f nok] nok js show ?thesis by simp
qed

end
